theory Spec2Isabelle
  imports Complex_Main "HOL-Library.Word" "HOL-Library.Char_ord" "HOL-Library.List_Lexorder"
begin

unbundle bit_operations_syntax

section \<open>Strings and the character classes of the regular expressions\<close>

text \<open>
  A JavaScript string is modelled as a \<^typ>\<open>string\<close>: a list of code units, restricted
  to the 256 values of \<^typ>\<open>char\<close>. The class \<open>\s\<close> (also the set that \<open>trim\<close> strips)
  is tab, line feed, vertical tab, form feed, carriage return, space and the no-break
  space; \<open>\w\<close> is \<open>[A-Za-z0-9_]\<close>.
\<close>

definition LF :: char where
  "LF = CHR 0x0A"

definition CR :: char where
  "CR = CHR 0x0D"

definition DQ :: char where
  "DQ = CHR 0x22"

definition is_space :: "char \<Rightarrow> bool" where
  "is_space c = (c \<in> set [CHR 0x09, CHR 0x0A, CHR 0x0B, CHR 0x0C, CHR 0x0D, CHR 0x20, CHR 0xA0])"

definition is_word :: "char \<Rightarrow> bool" where
  "is_word c = (c \<in> set ''ABCDEFGHIJKLMNOPQRSTUVWXYZabcdefghijklmnopqrstuvwxyz0123456789_'')"

definition is_blank :: "char \<Rightarrow> bool" where
  "is_blank c = (c = CHR 0x20 \<or> c = CHR 0x09)"

definition is_line_end :: "char \<Rightarrow> bool" where
  "is_line_end c = (c = LF \<or> c = CR)"

text \<open>\<open>String(n)\<close> for a non-negative integer: its decimal digits.\<close>

function string_of_nat :: "nat \<Rightarrow> string" where
  "string_of_nat n =
     (if n < 10 then [char_of (48 + n)]
      else string_of_nat (n div 10) @ [char_of (48 + n mod 10)])"
  by pat_completeness auto
termination
  by (relation "measure id") auto

text \<open>\<open>s.split('\n')\<close>: the pieces between line feeds, one more than there are line feeds.\<close>

fun split_lines :: "string \<Rightarrow> string list" where
  "split_lines [] = [[]]"
| "split_lines (c # cs) =
     (if c = LF then [] # split_lines cs
      else (case split_lines cs of [] \<Rightarrow> [[c]] | l # ls \<Rightarrow> (c # l) # ls))"

text \<open>\<open>new Set(xs)\<close>, read back in iteration order: each element once, where it first stood.\<close>

definition js_set :: "'a list \<Rightarrow> 'a list" where
  "js_set xs = foldl (\<lambda>acc x. if x \<in> set acc then acc else acc @ [x]) [] xs"

fun strip_prefix :: "string \<Rightarrow> string \<Rightarrow> string option" where
  "strip_prefix [] s = Some s"
| "strip_prefix (p # ps) [] = None"
| "strip_prefix (p # ps) (c # cs) = (if p = c then strip_prefix ps cs else None)"

section \<open>The adjudicator's types\<close>

datatype DiffType =
  MISSING_FILE | EXTRA_FILE | CONTENT_DIFF | SEMANTIC_DIFF | STYLE_DIFF | HASH_MISMATCH

datatype DiffSeverity = critical | major | minor | info

datatype VerdictType = MATCH | MISMATCH | PARTIAL_MATCH | ERROR | INCONCLUSIVE

datatype FileKind = types | constants | validators | index | config

record GeneratedFile =
  file_path :: string
  file_content :: string
  file_hash :: string
  file_type :: "FileKind option"

record GenerationMetadata =
  timestamp :: string
  version :: string
  manifestHash :: string
  durationMs :: int
  generator :: "string option"
  fileCount :: "nat option"

record CodegenOutput =
  files :: "GeneratedFile list"
  metadata :: GenerationMetadata
  bundle_hash :: string

datatype SemanticMode = strict | relaxed

record ComparisonOptions =
  ignoreWhitespace :: "bool option"
  ignoreComments :: "bool option"
  semanticMode :: "SemanticMode option"
  maxDiffSize :: "int option"

text \<open>
  The declared type of a comparison input has both bundles; at run time either may be
  absent (\<open>undefined\<close>), which is \<open>None\<close> here.
\<close>

record ComparisonInput =
  a3Output :: "CodegenOutput option"
  a4Output :: "CodegenOutput option"
  options :: "ComparisonOptions option"

record DiffLocation =
  startLine :: int
  endLine :: int
  startColumn :: "int option"
  endColumn :: "int option"

record SemanticDiff =
  d_path :: string
  d_type :: DiffType
  d_severity :: DiffSeverity
  d_description :: string
  d_a3Value :: "string option"
  d_a4Value :: "string option"
  d_location :: "DiffLocation option"

record AdjudicationVerdict =
  verdict :: VerdictType
  confidence :: real
  semanticallyEquivalent :: bool
  diffs :: "SemanticDiff list"
  v_summary :: string
  v_timestamp :: string

section \<open>The diff builder (diff.ts)\<close>

record DiffMismatch =
  m_type :: DiffType
  m_severity :: DiffSeverity
  m_path :: string
  m_description :: string
  m_a3Value :: "string option"
  m_a4Value :: "string option"

record DiffSummary =
  filesMatch :: bool
  hashMatch :: bool
  criticalCount :: nat
  majorCount :: nat
  minorCount :: nat
  infoCount :: nat

record DiffResult =
  r_timestamp :: string
  a3Hash :: string
  a4Hash :: string
  totalDiffs :: nat
  mismatches :: "DiffMismatch list"
  summary :: DiffSummary

text \<open>
  \<open>extractExports\<close> runs four global patterns \<open>export\s+KW\s+(\w+)\<close> over the content.
  \<open>match_export kw s\<close> is one attempt of the pattern at the start of \<open>s\<close>: the captured
  name and the text after the match. Both \<open>\s+\<close> and \<open>\w+\<close> are greedy and are followed
  by a character outside their class, so the attempt has one way to succeed.
\<close>

definition match_export :: "string \<Rightarrow> string \<Rightarrow> (string \<times> string) option" where
  "match_export kw s =
     (case strip_prefix ''export'' s of
        None \<Rightarrow> None
      | Some r1 \<Rightarrow>
          if takeWhile is_space r1 = [] then None
          else (case strip_prefix kw (dropWhile is_space r1) of
                  None \<Rightarrow> None
                | Some r3 \<Rightarrow>
                    if takeWhile is_space r3 = [] then None
                    else let r4 = dropWhile is_space r3 in
                      if takeWhile is_word r4 = [] then None
                      else Some (takeWhile is_word r4, dropWhile is_word r4)))"

lemma strip_prefix_length:
  "strip_prefix p s = Some r \<Longrightarrow> length s = length p + length r"
  by (induction p s rule: strip_prefix.induct) (auto split: if_splits)

lemma match_export_shorter:
  assumes "match_export kw s = Some (n, r)"
  shows "length r < length s"
proof -
  from assms obtain r1 r3 where
    r1: "strip_prefix ''export'' s = Some r1" and
    r3: "strip_prefix kw (dropWhile is_space r1) = Some r3" and
    r: "r = dropWhile is_word (dropWhile is_space r3)"
    by (auto simp: match_export_def Let_def split: option.splits if_splits)
  have "length r \<le> length r3"
    unfolding r by (meson length_dropWhile_le order_trans)
  also have "\<dots> \<le> length (dropWhile is_space r1)"
    using strip_prefix_length [OF r3] by simp
  also have "\<dots> \<le> length r1"
    by (rule length_dropWhile_le)
  also have "\<dots> < length s"
    using strip_prefix_length [OF r1] by simp
  finally show ?thesis .
qed

text \<open>
  The \<open>while ((match = pattern.exec(content)) !== null)\<close> loop: the leftmost match at or
  after the last index, then on from the end of that match.
\<close>

function scan_exports :: "string \<Rightarrow> string \<Rightarrow> string list" where
  "scan_exports kw [] = []"
| "scan_exports kw (c # cs) =
     (case match_export kw (c # cs) of
        Some (name, rest) \<Rightarrow> name # scan_exports kw rest
      | None \<Rightarrow> scan_exports kw cs)"
  by pat_completeness auto
termination
  by (relation "measure (\<lambda>(kw, s). length s)") (auto dest: match_export_shorter)

definition extractExports :: "string \<Rightarrow> string list" where
  "extractExports content =
     sort (concat (map (\<lambda>kw. scan_exports kw content)
                     [''const'', ''function'', ''type'', ''interface'']))"

definition compareContent :: "string \<Rightarrow> string \<Rightarrow> string \<Rightarrow> DiffMismatch list" where
  "compareContent a3Content a4Content path =
     (let a3Lines = split_lines a3Content;
          a4Lines = split_lines a4Content;
          lineDiff =
            (if length a3Lines \<noteq> length a4Lines
             then [\<lparr>m_type = CONTENT_DIFF, m_severity = minor, m_path = path,
                     m_description = ''Line count differs'',
                     m_a3Value = Some (string_of_nat (length a3Lines) @ '' lines''),
                     m_a4Value = Some (string_of_nat (length a4Lines) @ '' lines'')\<rparr>]
             else []);
          a3Exports = extractExports a3Content;
          a4Exports = extractExports a4Content
      in lineDiff
         @ map (\<lambda>exp. \<lparr>m_type = CONTENT_DIFF, m_severity = major, m_path = path,
                   m_description = ''Export '' @ [DQ] @ exp @ [DQ] @ '' exists in A3 but not in A4'',
                   m_a3Value = None, m_a4Value = None\<rparr>)
             (filter (\<lambda>exp. exp \<notin> set a4Exports) a3Exports)
         @ map (\<lambda>exp. \<lparr>m_type = CONTENT_DIFF, m_severity = major, m_path = path,
                   m_description = ''Export '' @ [DQ] @ exp @ [DQ] @ '' exists in A4 but not in A3'',
                   m_a3Value = None, m_a4Value = None\<rparr>)
             (filter (\<lambda>exp. exp \<notin> set a3Exports) a4Exports))"

text \<open>\<open>x || d\<close> on an optional string: the default for \<open>undefined\<close> and for the empty string.\<close>

definition or_default :: "string option \<Rightarrow> string \<Rightarrow> string" where
  "or_default x d = (case x of None \<Rightarrow> d | Some s \<Rightarrow> if s = [] then d else s)"

definition compareMetadata :: "GenerationMetadata \<Rightarrow> GenerationMetadata \<Rightarrow> DiffMismatch list" where
  "compareMetadata a3Meta a4Meta =
     (if version a3Meta \<noteq> version a4Meta
      then [\<lparr>m_type = CONTENT_DIFF, m_severity = info, m_path = ''metadata.version'',
              m_description = ''Generator versions differ'',
              m_a3Value = Some (version a3Meta), m_a4Value = Some (version a4Meta)\<rparr>]
      else [])
     @ (if generator a3Meta \<noteq> generator a4Meta
        then [\<lparr>m_type = CONTENT_DIFF, m_severity = info, m_path = ''metadata.generator'',
                m_description = ''Generators differ (expected)'',
                m_a3Value = Some (or_default (generator a3Meta) ''a3-primary''),
                m_a4Value = Some (or_default (generator a4Meta) ''a4-dual'')\<rparr>]
        else [])
     @ (if manifestHash a3Meta \<noteq> manifestHash a4Meta
        then [\<lparr>m_type = HASH_MISMATCH, m_severity = major, m_path = ''metadata.manifestHash'',
                m_description = ''Manifest hashes differ - inputs may be different'',
                m_a3Value = Some (manifestHash a3Meta), m_a4Value = Some (manifestHash a4Meta)\<rparr>]
        else [])"

text \<open>
  \<open>buildDiff\<close>; \<open>now\<close> is what \<open>new Date().toISOString()\<close> reads. The four loops push
  in this order: files only in A3, files only in A4, the files of A3 that A4 has under the
  same path, the metadata.
\<close>

definition buildDiff :: "string \<Rightarrow> CodegenOutput \<Rightarrow> CodegenOutput \<Rightarrow> DiffResult" where
  "buildDiff now a3 a4 =
     (let a3Paths = js_set (map file_path (files a3));
          a4Paths = js_set (map file_path (files a4));
          missing =
            map (\<lambda>path. \<lparr>m_type = MISSING_FILE, m_severity = critical, m_path = path,
                    m_description = ''File exists in A3 but missing in A4'',
                    m_a3Value = Some ''present'', m_a4Value = Some ''missing''\<rparr>)
              (filter (\<lambda>path. path \<notin> set a4Paths) a3Paths);
          extra =
            map (\<lambda>path. \<lparr>m_type = EXTRA_FILE, m_severity = critical, m_path = path,
                    m_description = ''File exists in A4 but missing in A3'',
                    m_a3Value = Some ''missing'', m_a4Value = Some ''present''\<rparr>)
              (filter (\<lambda>path. path \<notin> set a3Paths) a4Paths);
          matching =
            concat (map (\<lambda>a3File.
              (case find (\<lambda>f. file_path f = file_path a3File) (files a4) of
                 None \<Rightarrow> []
               | Some a4File \<Rightarrow>
                   if file_hash a3File \<noteq> file_hash a4File
                   then \<lparr>m_type = HASH_MISMATCH, m_severity = major, m_path = file_path a3File,
                          m_description = ''File hashes differ'',
                          m_a3Value = Some (file_hash a3File),
                          m_a4Value = Some (file_hash a4File)\<rparr>
                        # compareContent (file_content a3File) (file_content a4File) (file_path a3File)
                   else [])) (files a3));
          ms = missing @ extra @ matching @ compareMetadata (metadata a3) (metadata a4)
      in \<lparr>r_timestamp = now,
          a3Hash = bundle_hash a3,
          a4Hash = bundle_hash a4,
          totalDiffs = length ms,
          mismatches = ms,
          summary =
            \<lparr>filesMatch = (list_all (\<lambda>p. p \<in> set a4Paths) a3Paths
                            \<and> list_all (\<lambda>p. p \<in> set a3Paths) a4Paths),
              hashMatch = (bundle_hash a3 = bundle_hash a4),
              criticalCount = length (filter (\<lambda>m. m_severity m = critical) ms),
              majorCount = length (filter (\<lambda>m. m_severity m = major) ms),
              minorCount = length (filter (\<lambda>m. m_severity m = minor) ms),
              infoCount = length (filter (\<lambda>m. m_severity m = info) ms)\<rparr>\<rparr>)"

text \<open>
  The report object: \<open>version\<close>, \<open>generator\<close>, the spread fields of the result (none of
  which is named \<open>version\<close>, \<open>generator\<close> or \<open>verdict\<close>) and the derived verdict.
\<close>

record DiffReport =
  rep_version :: string
  rep_generator :: string
  rep_result :: DiffResult
  rep_verdict :: VerdictType

definition generateDiffReport :: "DiffResult \<Rightarrow> DiffReport" where
  "generateDiffReport result =
     \<lparr>rep_version = ''1.0.0'',
      rep_generator = ''a5-adjudicator'',
      rep_result = result,
      rep_verdict =
        (if criticalCount (summary result) = 0 \<and> majorCount (summary result) = 0 then MATCH
         else if criticalCount (summary result) > 0 then MISMATCH
         else PARTIAL_MATCH)\<rparr>"

section \<open>The adjudicator (compare.ts)\<close>

text \<open>\<open>content.replace(/\r\n/g, '\n')\<close>.\<close>

fun replace_crlf :: "string \<Rightarrow> string" where
  "replace_crlf [] = []"
| "replace_crlf [c] = [c]"
| "replace_crlf (c # d # cs) =
     (if c = CR \<and> d = LF then LF # replace_crlf cs else c # replace_crlf (d # cs))"

text \<open>
  \<open>.replace(/[ \t]+/g, ' ')\<close>: every maximal run of spaces and tabs becomes one space.
  The flag says whether the previous character belonged to the run being replaced.
\<close>

fun collapse_blanks :: "bool \<Rightarrow> string \<Rightarrow> string" where
  "collapse_blanks in_run [] = []"
| "collapse_blanks in_run (c # cs) =
     (if is_blank c
      then (if in_run then collapse_blanks True cs else CHR 0x20 # collapse_blanks True cs)
      else c # collapse_blanks False cs)"

text \<open>
  \<open>.replace(/\n\s*\n/g, '\n')\<close>. At a line feed the greedy \<open>\s*\<close> takes the whole run of
  white space that follows and gives back characters until a line feed stands next: the
  match ends with the last line feed of the run, when the run has one. The scan goes on
  behind the match.
\<close>

definition after_last_LF :: "string \<Rightarrow> string" where
  "after_last_LF ws = rev (takeWhile (\<lambda>c. c \<noteq> LF) (rev ws))"

function collapse_blank_lines :: "string \<Rightarrow> string" where
  "collapse_blank_lines [] = []"
| "collapse_blank_lines (c # cs) =
     (if c = LF \<and> LF \<in> set (takeWhile is_space cs)
      then LF # collapse_blank_lines (after_last_LF (takeWhile is_space cs) @ dropWhile is_space cs)
      else c # collapse_blank_lines cs)"
  by pat_completeness auto

lemma after_last_LF_length: "length (after_last_LF ws) \<le> length ws"
  unfolding after_last_LF_def by (metis length_rev length_takeWhile_le)

lemma span_length: "length (takeWhile P xs) + length (dropWhile P xs) = length xs"
  by (metis length_append takeWhile_dropWhile_id)

termination collapse_blank_lines
proof (relation "measure length", goal_cases)
  case 1
  show ?case by simp
next
  case (2 c cs)
  have "length (after_last_LF (takeWhile is_space cs)) + length (dropWhile is_space cs)
          \<le> length cs"
    using after_last_LF_length [of "takeWhile is_space cs"] span_length [of is_space cs]
    by linarith
  then show ?case by simp
next
  case (3 c cs)
  show ?case by simp
qed

text \<open>\<open>.trim()\<close>.\<close>

definition trim :: "string \<Rightarrow> string" where
  "trim s = rev (dropWhile is_space (rev (dropWhile is_space s)))"

definition normalizeWhitespace :: "string \<Rightarrow> string" where
  "normalizeWhitespace content =
     trim (collapse_blank_lines (collapse_blanks False (replace_crlf content)))"

text \<open>
  \<open>content.replace(/\/\/.*$/gm, '')\<close>: from two slashes to the end of the line (the dot
  stops before a line terminator, where the multi-line \<open>$\<close> holds, or at the end of the
  text).
\<close>

function remove_line_comments :: "string \<Rightarrow> string" where
  "remove_line_comments [] = []"
| "remove_line_comments [c] = [c]"
| "remove_line_comments (c # d # cs) =
     (if c = CHR ''/'' \<and> d = CHR ''/''
      then remove_line_comments (dropWhile (\<lambda>x. \<not> is_line_end x) cs)
      else c # remove_line_comments (d # cs))"
  by pat_completeness auto
termination
  by (relation "measure length") (auto simp: less_Suc_eq_le intro: le_trans [OF length_dropWhile_le])

text \<open>
  \<open>result.replace(/\/\*[\s\S]*?\*\//g, '')\<close>: from \<open>/*\<close> to the first \<open>*/\<close> behind it;
  an opener with no closer behind it stays.
\<close>

fun find_close :: "string \<Rightarrow> string option" where
  "find_close [] = None"
| "find_close [c] = None"
| "find_close (c # d # cs) =
     (if c = CHR ''*'' \<and> d = CHR ''/'' then Some cs else find_close (d # cs))"

lemma find_close_shorter: "find_close s = Some r \<Longrightarrow> length r < length s"
  by (induction s rule: find_close.induct) (auto split: if_splits)

function remove_block_comments :: "string \<Rightarrow> string" where
  "remove_block_comments [] = []"
| "remove_block_comments [c] = [c]"
| "remove_block_comments (c # d # cs) =
     (if c = CHR ''/'' \<and> d = CHR ''*''
      then (case find_close cs of
              Some rest \<Rightarrow> remove_block_comments rest
            | None \<Rightarrow> c # remove_block_comments (d # cs))
      else c # remove_block_comments (d # cs))"
  by pat_completeness auto
termination
  by (relation "measure length") (auto dest: find_close_shorter)

definition removeComments :: "string \<Rightarrow> string" where
  "removeComments content = remove_block_comments (remove_line_comments content)"

text \<open>\<open>options?.flag\<close> as a condition: true when the options are there and the flag is \<open>true\<close>.\<close>

definition opt_flag :: "(ComparisonOptions \<Rightarrow> bool option) \<Rightarrow> ComparisonOptions option \<Rightarrow> bool" where
  "opt_flag flag opts = (case opts of None \<Rightarrow> False | Some x \<Rightarrow> flag x = Some True)"

definition excerpt :: "string \<Rightarrow> string" where
  "excerpt c = take 100 c @ (if length c > 100 then ''...'' else [])"

definition compareContentSemantic ::
  "string \<Rightarrow> string \<Rightarrow> string \<Rightarrow> ComparisonOptions option \<Rightarrow> SemanticDiff list" where
  "compareContentSemantic a3Content a4Content path opts =
     (let c1 = a3Content;
          c2 = a4Content;
          c1 = (if opt_flag ignoreWhitespace opts then normalizeWhitespace c1 else c1);
          c2 = (if opt_flag ignoreWhitespace opts then normalizeWhitespace c2 else c2);
          c1 = (if opt_flag ignoreComments opts then removeComments c1 else c1);
          c2 = (if opt_flag ignoreComments opts then removeComments c2 else c2)
      in if c1 \<noteq> c2
         then [\<lparr>d_path = path, d_type = CONTENT_DIFF, d_severity = major,
                 d_description = ''File content differs between A3 and A4'',
                 d_a3Value = Some (excerpt c1), d_a4Value = Some (excerpt c2),
                 d_location = None\<rparr>]
         else [])"

text \<open>
  A fault raised by the run time. \<open>compare\<close> reads \<open>a3Output.files\<close> and then
  \<open>a4Output.files\<close> with no test before: on an absent bundle the read raises a
  \<open>TypeError\<close>, which nothing in the module catches. \<open>InvalidInput\<close> is the failure
  the specification names for an absent bundle; no statement of the source raises it.
  \<open>ReadError\<close> is the error of a file read that fails.
\<close>

datatype fault = TypeError | InvalidInput | ReadError

definition compare :: "ComparisonInput \<Rightarrow> fault + SemanticDiff list" where
  "compare input =
     (case a3Output input of
        None \<Rightarrow> Inl TypeError
      | Some a3 \<Rightarrow>
          (case a4Output input of
             None \<Rightarrow> Inl TypeError
           | Some a4 \<Rightarrow>
               let a3Paths = js_set (map file_path (files a3));
                   a4Paths = js_set (map file_path (files a4));
                   missing =
                     map (\<lambda>path. \<lparr>d_path = path, d_type = MISSING_FILE, d_severity = critical,
                             d_description = ''File exists in A3 but missing in A4'',
                             d_a3Value = Some ''present'', d_a4Value = Some ''missing'',
                             d_location = None\<rparr>)
                       (filter (\<lambda>path. path \<notin> set a4Paths) a3Paths);
                   extra =
                     map (\<lambda>path. \<lparr>d_path = path, d_type = EXTRA_FILE, d_severity = critical,
                             d_description = ''File exists in A4 but missing in A3'',
                             d_a3Value = Some ''missing'', d_a4Value = Some ''present'',
                             d_location = None\<rparr>)
                       (filter (\<lambda>path. path \<notin> set a3Paths) a4Paths);
                   matching =
                     concat (map (\<lambda>a3File.
                       (case find (\<lambda>f. file_path f = file_path a3File) (files a4) of
                          None \<Rightarrow> []
                        | Some a4File \<Rightarrow>
                            if file_hash a3File \<noteq> file_hash a4File
                            then compareContentSemantic (file_content a3File) (file_content a4File)
                                   (file_path a3File) (options input)
                            else [])) (files a3))
               in Inr (missing @ extra @ matching)))"

definition generateSummary :: "VerdictType \<Rightarrow> SemanticDiff list \<Rightarrow> string" where
  "generateSummary v ds =
     (case v of
        MATCH \<Rightarrow>
          if length ds = 0 then ''A3 and A4 outputs are identical.''
          else ''A3 and A4 outputs are semantically equivalent ('' @ string_of_nat (length ds)
               @ '' minor differences).''
      | MISMATCH \<Rightarrow>
          ''A3 and A4 outputs differ significantly. '' @ string_of_nat (length ds)
          @ '' differences found.''
      | PARTIAL_MATCH \<Rightarrow>
          ''A3 and A4 outputs partially match. '' @ string_of_nat (length ds)
          @ '' differences require review.''
      | ERROR \<Rightarrow> ''Comparison could not be completed due to an error.''
      | INCONCLUSIVE \<Rightarrow> ''Could not determine semantic equivalence.'')"

text \<open>
  \<open>adjudicate\<close>; \<open>now\<close> is what \<open>new Date().toISOString()\<close> reads. A fault of
  \<open>compare\<close> leaves the function at its first statement. \<open>decide_verdict\<close> is the
  function's chain of tests on the diff list: the verdict, the equivalence flag and the
  confidence it assigns.
\<close>

definition decide_verdict :: "SemanticDiff list \<Rightarrow> VerdictType \<times> bool \<times> real" where
  "decide_verdict ds =
     (let criticalDiffs = filter (\<lambda>d. d_severity d = critical) ds;
          majorDiffs = filter (\<lambda>d. d_severity d = major) ds;
          minorDiffs = filter (\<lambda>d. d_severity d = minor) ds
      in if length ds = 0 then (MATCH, True, 1.0)
         else if length criticalDiffs > 0 then (MISMATCH, False, 0.95)
         else if length majorDiffs > 0 then (PARTIAL_MATCH, False, 0.8)
         else (MATCH, True, 0.9))"

definition adjudicate :: "string \<Rightarrow> ComparisonInput \<Rightarrow> fault + AdjudicationVerdict" where
  "adjudicate now input =
     (case compare input of
        Inl e \<Rightarrow> Inl e
      | Inr ds \<Rightarrow>
          (case decide_verdict ds of
             (v, equivalent, conf) \<Rightarrow>
               Inr \<lparr>verdict = v, confidence = conf, semanticallyEquivalent = equivalent,
                     diffs = ds, v_summary = generateSummary v ds, v_timestamp = now\<rparr>))"

section \<open>JavaScript values and \<open>JSON.stringify\<close>\<close>

text \<open>
  A value as \<open>JSON.stringify\<close> sees it. An object is the list of its own enumerable
  properties, in the order in which the language enumerates them; a property is looked
  up by its key. Inherited properties play no part: those of plain objects are functions,
  which \<open>JSON.stringify\<close> leaves out like an absent property.
\<close>

datatype jsval =
  JUndefined
| JNull
| JBool bool
| JNum real
| JStr string
| JArr "jsval list"
| JObj "(string \<times> jsval) list"

definition BS :: char where
  "BS = CHR 0x5C"

definition hex_digit :: "nat \<Rightarrow> char" where
  "hex_digit n = ''0123456789abcdef'' ! (n mod 16)"

text \<open>\<open>QuoteJSONString\<close>, on the code units of \<^typ>\<open>char\<close>.\<close>

definition quote_char :: "char \<Rightarrow> string" where
  "quote_char c =
     (if c = DQ then [BS, DQ]
      else if c = BS then [BS, BS]
      else if c = CHR 0x08 then [BS, CHR ''b'']
      else if c = CHR 0x0C then [BS, CHR ''f'']
      else if c = CHR 0x0A then [BS, CHR ''n'']
      else if c = CHR 0x0D then [BS, CHR ''r'']
      else if c = CHR 0x09 then [BS, CHR ''t'']
      else if (of_char c :: nat) < 32
        then [BS, CHR ''u'', CHR ''0'', CHR ''0'', hex_digit (of_char c div 16), hex_digit (of_char c)]
      else [c])"

definition quote :: "string \<Rightarrow> string" where
  "quote s = [DQ] @ concat (map quote_char s) @ [DQ]"

text \<open>\<open>xs.join(sep)\<close>.\<close>

fun join :: "string \<Rightarrow> string list \<Rightarrow> string" where
  "join sep [] = []"
| "join sep [x] = x"
| "join sep (x # y # ys) = x @ sep @ join sep (y # ys)"

text \<open>
  \<open>SerializeJSONProperty\<close> with no gap: \<open>None\<close> is the result \<open>undefined\<close>. \<open>plist\<close>
  is the property list of a replacer array (\<open>None\<close>: no replacer). With a property list,
  an object is written with the keys of the list, in the order of the list, that it has with
  a value that is written; this holds at every depth. An array writes \<open>null\<close> for an
  element that is not written. \<open>nts\<close> renders a (finite) number.
\<close>

fun serialize :: "(real \<Rightarrow> string) \<Rightarrow> string list option \<Rightarrow> jsval \<Rightarrow> string option" where
  "serialize nts plist JUndefined = None"
| "serialize nts plist JNull = Some ''null''"
| "serialize nts plist (JBool b) = Some (if b then ''true'' else ''false'')"
| "serialize nts plist (JNum x) = Some (nts x)"
| "serialize nts plist (JStr s) = Some (quote s)"
| "serialize nts plist (JArr vs) =
     Some (''['' @ join '','' (map (\<lambda>v. case serialize nts plist v of None \<Rightarrow> ''null'' | Some s \<Rightarrow> s) vs)
           @ '']'')"
| "serialize nts plist (JObj kvs) =
     (let written = map (\<lambda>kv. (fst kv, serialize nts plist (snd kv))) kvs;
          keys = (case plist of None \<Rightarrow> map fst kvs | Some ks \<Rightarrow> ks)
      in Some (''{''
           @ join '',''
               (List.map_filter
                  (\<lambda>k. case map_of written k of
                         Some (Some s) \<Rightarrow> Some (quote k @ '':'' @ s)
                       | _ \<Rightarrow> None) keys)
           @ ''}''))"

text \<open>
  \<open>JSON.stringify(value, replacer)\<close> with an array of strings (or nothing) as the
  replacer: the property list takes each string of the array once.
\<close>

definition JSON_stringify :: "(real \<Rightarrow> string) \<Rightarrow> jsval \<Rightarrow> string list option \<Rightarrow> string option" where
  "JSON_stringify nts v replacer = serialize nts (map_option js_set replacer) v"

section \<open>The manifest (shared types)\<close>

record ProjectConfig =
  project_name :: string
  project_description :: string
  project_repository :: string

record ThresholdConfig =
  th_critical :: real
  th_low :: real
  th_nominal :: real
  th_optimal :: real

record WeightConfig =
  A3_governance :: real
  A4_architecture :: real
  A5_implementation :: real
  w_validation :: real

record DiamondHandsConfig =
  dh_threshold :: real
  required_validation_score :: real
  approval_required :: bool
  approvers :: "string list"

record ThunderStrikeConfig =
  validation_levels :: "string list"
  required_for_advancement :: "string list"

record MetricConfig =
  metric_description :: string
  metric_weight :: real
  metric_sources :: "string list"

record EvidenceConfig =
  output_directory :: string
  formats :: "string list"
  retention_days :: real
  required_artifacts :: "string list"

record CIConfig =
  trigger_on :: "string list"
  schedule :: string
  jobs :: jsval

text \<open>
  A manifest as its type declares it, for \<open>validateManifest\<close>. Numbers are real
  numbers; the record of metrics is its list of entries. The jobs, the notifications and
  the roles are the values of the document as they are (\<open>undefined\<close> when it has
  none): the loader passes them through.
\<close>

record Manifest =
  manifest_version :: string
  project :: ProjectConfig
  thresholds :: ThresholdConfig
  weights :: WeightConfig
  diamond_hands :: DiamondHandsConfig
  thunder_strike :: ThunderStrikeConfig
  metrics :: "(string \<times> MetricConfig) list"
  evidence :: EvidenceConfig
  ci :: CIConfig
  notifications :: jsval
  roles :: jsval

record ValidationError =
  e_path :: string
  e_message :: string
  e_code :: string

record ValidationWarning =
  w_path :: string
  w_message :: string
  w_code :: string

record ValidationResult =
  valid :: bool
  errors :: "ValidationError list"
  warnings :: "ValidationWarning list"

record ManifestLoadResult =
  success :: bool
  manifest :: "Manifest option"
  error :: "string option"
  validationResult :: "ValidationResult option"

section \<open>The manifest loader\<close>












text \<open>The manifest of an empty document, in the declared type: every default.\<close>

definition default_manifest :: Manifest where
  "default_manifest =
     \<lparr>manifest_version = ''2.0.0'',
      project = \<lparr>project_name = ''Unknown'', project_description = [], project_repository = []\<rparr>,
      thresholds = \<lparr>th_critical = 0.3, th_low = 0.5, th_nominal = 0.7, th_optimal = 0.9\<rparr>,
      weights = \<lparr>A3_governance = 0.3, A4_architecture = 0.25, A5_implementation = 0.25,
                  w_validation = 0.2\<rparr>,
      diamond_hands = \<lparr>dh_threshold = 0.7, required_validation_score = 0.8,
                        approval_required = True, approvers = []\<rparr>,
      thunder_strike =
        \<lparr>validation_levels =
           [''self_assessment'', ''peer_review'', ''external_validation'', ''diamond_hands_final''],
         required_for_advancement = [''self_assessment'', ''peer_review'', ''external_validation'']\<rparr>,
      metrics = [],
      evidence = \<lparr>output_directory = ''evidence/A7-bundle'',
                   formats = [''json'', ''yaml'', ''markdown''],
                   retention_days = 90,
                   required_artifacts =
                     [''frequency_report'', ''validation_logs'', ''component_metrics'',
                      ''decision_record'']\<rparr>,
      ci = \<lparr>trigger_on = [''push'', ''pull_request''], schedule = ''0 */6 * * *'', jobs = JObj []\<rparr>,
      notifications = JUndefined,
      roles = JUndefined\<rparr>"

text \<open>
  \<open>validateManifest\<close>. The pushes happen in the order of the source; \<open>nts\<close> renders the
  weight sum in the warning. The numbers of the source are doubles: \<open>fl\<close> rounds the
  exact result of an addition or of a subtraction, and the literal \<open>0.01\<close>, to the
  double that the source computes with. Comparisons and absolute values are exact.
\<close>

definition validateManifest ::
  "(real \<Rightarrow> string) \<Rightarrow> (real \<Rightarrow> real) \<Rightarrow> Manifest \<Rightarrow> ValidationResult" where
  "validateManifest nts fl m =
     (let errs =
            (if manifest_version m = []
             then [\<lparr>e_path = ''version'', e_message = ''Version is required'',
                     e_code = ''MISSING_VERSION''\<rparr>]
             else [])
            @ (if project_name (project m) = []
               then [\<lparr>e_path = ''project.name'', e_message = ''Project name is required'',
                       e_code = ''MISSING_PROJECT_NAME''\<rparr>]
               else [])
            @ (if th_critical (thresholds m) \<ge> th_low (thresholds m)
               then [\<lparr>e_path = ''thresholds'',
                       e_message = ''Critical threshold must be less than low'',
                       e_code = ''INVALID_THRESHOLDS''\<rparr>]
               else [])
            @ (if th_low (thresholds m) \<ge> th_nominal (thresholds m)
               then [\<lparr>e_path = ''thresholds'',
                       e_message = ''Low threshold must be less than nominal'',
                       e_code = ''INVALID_THRESHOLDS''\<rparr>]
               else [])
            @ (if th_nominal (thresholds m) \<ge> th_optimal (thresholds m)
               then [\<lparr>e_path = ''thresholds'',
                       e_message = ''Nominal threshold must be less than optimal'',
                       e_code = ''INVALID_THRESHOLDS''\<rparr>]
               else [])
            @ (if dh_threshold (diamond_hands m) < 0 \<or> dh_threshold (diamond_hands m) > 1
               then [\<lparr>e_path = ''diamond_hands.threshold'',
                       e_message = ''Threshold must be between 0 and 1'',
                       e_code = ''INVALID_THRESHOLD''\<rparr>]
               else []);
          weightSum =
            fl (fl (fl (A3_governance (weights m) + A4_architecture (weights m))
                    + A5_implementation (weights m))
                + w_validation (weights m));
          warns =
            (if \<bar>fl (weightSum - 1.0)\<bar> > fl 0.01
             then [\<lparr>w_path = ''weights'',
                     w_message = ''Weights sum to '' @ nts weightSum @ '', expected 1.0'',
                     w_code = ''WEIGHT_SUM''\<rparr>]
             else [])
      in \<lparr>valid = (length errs = 0), errors = errs, warnings = warns\<rparr>)"

text \<open>
  What \<open>loadManifest\<close> finds at a path: nothing, a file that cannot be read (the read
  raises an error with this message), or a file with this content.
\<close>

datatype file_state = Missing | Unreadable string | Readable string

text \<open>
  \<open>loadManifest\<close>. \<open>resolve\<close> is \<open>path.resolve\<close>, \<open>fs\<close> the file system, \<open>nts\<close>
  and \<open>fl\<close> are those of \<open>validateManifest\<close>. \<open>parseYaml\<close>
  is the parser as a function from the content to the manifest it returns, or to the
  message of the error it raises; the properties below hold for every such function.
\<close>

definition loadManifest ::
  "(real \<Rightarrow> string) \<Rightarrow> (real \<Rightarrow> real) \<Rightarrow> (string \<Rightarrow> string) \<Rightarrow> (string \<Rightarrow> file_state)
   \<Rightarrow> (string \<Rightarrow> string + Manifest) \<Rightarrow> string \<Rightarrow> ManifestLoadResult" where
  "loadManifest nts fl resolve fs parseYaml manifestPath =
     (let resolvedPath = resolve manifestPath in
      case fs resolvedPath of
        Missing \<Rightarrow>
          \<lparr>success = False, manifest = None,
            error = Some (''Manifest file not found: '' @ resolvedPath),
            validationResult = None\<rparr>
      | Unreadable msg \<Rightarrow>
          \<lparr>success = False, manifest = None,
            error = Some (''Failed to load manifest: '' @ msg),
            validationResult = None\<rparr>
      | Readable content \<Rightarrow>
          (case parseYaml content of
             Inl msg \<Rightarrow>
               \<lparr>success = False, manifest = None,
                 error = Some (''Failed to load manifest: '' @ msg),
                 validationResult = None\<rparr>
           | Inr m \<Rightarrow>
               let validationResult = validateManifest nts fl m in
               if \<not> valid validationResult
               then \<lparr>success = False, manifest = None,
                      error = Some (''Manifest validation failed: ''
                                    @ join '', '' (map e_message (errors validationResult))),
                      validationResult = Some validationResult\<rparr>
               else \<lparr>success = True, manifest = Some m, error = None,
                      validationResult = Some validationResult\<rparr>))"

text \<open>
  \<open>hashManifest\<close> on the manifest object. \<open>sha256\<close> is the hexadecimal SHA-256 digest
  of the platform's library. \<open>Object.keys(manifest).sort()\<close> orders the keys by code
  units. A serialization that is \<open>undefined\<close> would make \<open>update\<close> raise a
  \<open>TypeError\<close>.
\<close>

definition hashManifest ::
  "(string \<Rightarrow> string) \<Rightarrow> (real \<Rightarrow> string) \<Rightarrow> (string \<times> jsval) list \<Rightarrow> fault + string" where
  "hashManifest sha256 nts m =
     (case JSON_stringify nts (JObj m) (Some (sort (map fst m))) of
        None \<Rightarrow> Inl TypeError
      | Some content \<Rightarrow> Inr (take 16 (sha256 content)))"

definition hashContent :: "(string \<Rightarrow> string) \<Rightarrow> string \<Rightarrow> string" where
  "hashContent sha256 content = take 16 (sha256 content)"

section \<open>Generator B: \<open>generate\<close> and the aggregate hash\<close>

record CodegenConfig =
  manifestPath :: string
  outputDir :: string

definition VERSION :: string where
  "VERSION = ''1.0.0''"

definition GENERATOR :: string where
  "GENERATOR = ''a4-dual-ast''"

text \<open>\<open>generateHash\<close>: the first sixteen digits of the hexadecimal SHA-256 digest.\<close>

definition generateHash :: "(string \<Rightarrow> string) \<Rightarrow> string \<Rightarrow> string" where
  "generateHash sha256 content = take 16 (sha256 content)"

text \<open>
  \<open>generateOutputHash\<close>: the hash of the serialization of an object with the files,
  each reduced to its path and its hash, and the manifest hash. The serialization of an
  object is never \<open>undefined\<close>; the branch is the \<open>TypeError\<close> that hashing
  \<open>undefined\<close> would raise.
\<close>

definition generateOutputHash :: "(string \<Rightarrow> string) \<Rightarrow> (real \<Rightarrow> string) \<Rightarrow> CodegenOutput \<Rightarrow> fault + string" where
  "generateOutputHash sha256 nts output =
     (case JSON_stringify nts
             (JObj [(''files'',
                      JArr (map (\<lambda>f. JObj [(''path'', JStr (file_path f)), (''hash'', JStr (file_hash f))])
                              (files output))),
                    (''manifestHash'', JStr (manifestHash (metadata output)))])
             None of
        None \<Rightarrow> Inl TypeError
      | Some content \<Rightarrow> Inr (generateHash sha256 content))"

text \<open>\<open>s.replace('.ts', '')\<close>: the first occurrence of the pattern is removed.\<close>

fun remove_first :: "string \<Rightarrow> string \<Rightarrow> string" where
  "remove_first pat [] = []"
| "remove_first pat (c # cs) =
     (case strip_prefix pat (c # cs) of
        Some rest \<Rightarrow> rest
      | None \<Rightarrow> c # remove_first pat cs)"

definition unlines :: "string list \<Rightarrow> string" where
  "unlines ls = concat (map (\<lambda>l. l @ [LF]) ls)"

definition SQ :: char where
  "SQ = CHR 0x27"

text \<open>\<open>buildIndexFile\<close>, on the files generated before it.\<close>

definition buildIndexFile :: "(string \<Rightarrow> string) \<Rightarrow> GeneratedFile list \<Rightarrow> GeneratedFile" where
  "buildIndexFile sha256 fs =
     (let exports =
            join [LF]
              (map (\<lambda>f. ''export * from '' @ [SQ] @ ''./'' @ remove_first ''.ts'' (file_path f)
                         @ [SQ] @ '';'')
                 (filter (\<lambda>f. file_path f \<noteq> ''index.ts'') fs));
          content =
            unlines [''/**'',
                     '' * Vyberology 2.0 Generated Code'',
                     '' * Generated by: '' @ GENERATOR,
                     '' *'',
                     '' * DO NOT EDIT - This file is auto-generated'',
                     '' */'',
                     [],
                     exports,
                     [],
                     ''// Default export'',
                     ''export { default as config } from '' @ [SQ] @ ''./config'' @ [SQ] @ '';'']
      in \<lparr>file_path = ''index.ts'', file_content = content,
          file_hash = generateHash sha256 content, file_type = Some index\<rparr>)"

text \<open>
  The parts of the generator that \<open>generate\<close> calls and that are taken as they are
  declared: the extraction of \<open>parseManifestRegex\<close>, a function of the text of the
  manifest file, and the texts that the four builders serialize, functions of the
  extracted manifest (the runtime configuration is a fixed text). The manifest itself
  is a JavaScript object.
\<close>

record generator_parts =
  extractManifest :: "string \<Rightarrow> jsval"
  typesText :: "jsval \<Rightarrow> string"
  constantsText :: "jsval \<Rightarrow> string"
  validatorsText :: "jsval \<Rightarrow> string"
  configText :: string

text \<open>The platform: the digest, the rendering of numbers, \<open>path.resolve\<close>, the files.\<close>

record platform =
  platform_sha256 :: "string \<Rightarrow> string"
  platform_numberToString :: "real \<Rightarrow> string"
  platform_resolve :: "string \<Rightarrow> string"
  platform_file :: "string \<Rightarrow> file_state"

text \<open>What one run reads from the clock: \<open>Date.now()\<close> twice and one ISO timestamp.\<close>

record clock =
  startTime :: int
  isoTime :: string
  endTime :: int

definition build_file :: "platform \<Rightarrow> string \<Rightarrow> FileKind \<Rightarrow> string \<Rightarrow> GeneratedFile" where
  "build_file p path kind content =
     \<lparr>file_path = path, file_content = content,
      file_hash = generateHash (platform_sha256 p) content, file_type = Some kind\<rparr>"

text \<open>
  \<open>generate\<close>. A file that cannot be read makes \<open>readFileSync\<close> raise; the promise
  is rejected with that error.
\<close>

definition generate ::
  "platform \<Rightarrow> generator_parts \<Rightarrow> clock \<Rightarrow> CodegenConfig \<Rightarrow> fault + CodegenOutput" where
  "generate p g clk cfg =
     (case platform_file p (platform_resolve p (manifestPath cfg)) of
        Missing \<Rightarrow> Inl ReadError
      | Unreadable msg \<Rightarrow> Inl ReadError
      | Readable content \<Rightarrow>
          let m = extractManifest g content in
          (case JSON_stringify (platform_numberToString p) m None of
             None \<Rightarrow> Inl TypeError
           | Some text \<Rightarrow>
               let mHash = generateHash (platform_sha256 p) text;
                   fs = [build_file p ''types.ts'' types (typesText g m),
                         build_file p ''constants.ts'' constants (constantsText g m),
                         build_file p ''validators.ts'' validators (validatorsText g m),
                         build_file p ''config.ts'' config (configText g)];
                   fs = fs @ [buildIndexFile (platform_sha256 p) fs];
                   output =
                     \<lparr>files = fs,
                      metadata =
                        \<lparr>timestamp = isoTime clk, version = VERSION, manifestHash = mHash,
                          durationMs = endTime clk - startTime clk,
                          generator = Some GENERATOR, fileCount = Some (length fs)\<rparr>,
                      bundle_hash = []\<rparr>
               in (case generateOutputHash (platform_sha256 p) (platform_numberToString p) output of
                     Inl e \<Rightarrow> Inl e
                   | Inr h \<Rightarrow> Inr (output\<lparr>bundle_hash := h\<rparr>))))"

section \<open>The bundles of the adjudicator's smoke test\<close>

text \<open>
  The fixtures of \<open>tests/smoke.test.ts\<close>: one bundle, a second with the same file, a
  third whose file has the content \<open>export const foo = 2;\<close>, and a fourth without
  files.
\<close>

definition mockA3Output :: CodegenOutput where
  "mockA3Output =
     \<lparr>files = [\<lparr>file_path = ''index.ts'', file_content = ''export const foo = 1;'',
                 file_hash = ''abc123'', file_type = None\<rparr>],
      metadata = \<lparr>timestamp = ''2024-01-01T00:00:00Z'', version = ''0.1.0'',
                   manifestHash = ''manifest123'', durationMs = 100,
                   generator = None, fileCount = None\<rparr>,
      bundle_hash = ''a3hash''\<rparr>"

definition mockA4OutputIdentical :: CodegenOutput where
  "mockA4OutputIdentical =
     \<lparr>files = [\<lparr>file_path = ''index.ts'', file_content = ''export const foo = 1;'',
                 file_hash = ''abc123'', file_type = None\<rparr>],
      metadata = \<lparr>timestamp = ''2024-01-01T00:00:01Z'', version = ''0.1.0'',
                   manifestHash = ''manifest123'', durationMs = 150,
                   generator = None, fileCount = None\<rparr>,
      bundle_hash = ''a4hash''\<rparr>"

definition mockA4OutputDifferent :: CodegenOutput where
  "mockA4OutputDifferent =
     \<lparr>files = [\<lparr>file_path = ''index.ts'', file_content = ''export const foo = 2;'',
                 file_hash = ''def456'', file_type = None\<rparr>],
      metadata = \<lparr>timestamp = ''2024-01-01T00:00:01Z'', version = ''0.1.0'',
                   manifestHash = ''manifest123'', durationMs = 150,
                   generator = None, fileCount = None\<rparr>,
      bundle_hash = ''a4hash-diff''\<rparr>"

definition a4Missing :: CodegenOutput where
  "a4Missing = mockA4OutputIdentical\<lparr>files := []\<rparr>"

text \<open>A diff of a given severity, to run the chain of tests of \<open>adjudicate\<close> on.\<close>

definition sample_diff :: "DiffSeverity \<Rightarrow> SemanticDiff" where
  "sample_diff s =
     \<lparr>d_path = ''index.ts'', d_type = STYLE_DIFF, d_severity = s, d_description = [],
      d_a3Value = None, d_a4Value = None, d_location = None\<rparr>"

section \<open>Notions used to state the properties of the manifest hash\<close>

text \<open>
  Two values are the same up to the order of keys: objects with the same keys (each once)
  and, under each key, values that are the same up to the order of keys; arrays of such
  values in the same order; equal scalars.
\<close>

inductive same_value :: "jsval \<Rightarrow> jsval \<Rightarrow> bool" where
  same_undefined: "same_value JUndefined JUndefined"
| same_null: "same_value JNull JNull"
| same_bool: "same_value (JBool b) (JBool b)"
| same_num: "same_value (JNum x) (JNum x)"
| same_str: "same_value (JStr s) (JStr s)"
| same_arr: "list_all2 same_value xs ys \<Longrightarrow> same_value (JArr xs) (JArr ys)"
| same_obj:
    "distinct (map fst kvs) \<Longrightarrow> distinct (map fst kvs') \<Longrightarrow>
     set (map fst kvs) = set (map fst kvs') \<Longrightarrow>
     (\<forall>k v v'. map_of kvs k = Some v \<longrightarrow> map_of kvs' k = Some v' \<longrightarrow> same_value v v') \<Longrightarrow>
     same_value (JObj kvs) (JObj kvs')"

inductive_cases same_objE: "same_value (JObj m1) (JObj m2)"







section \<open>Sample manifests\<close>

text \<open>The defaults with the thresholds critical 0.6 and low 0.5, and a document for them.\<close>

definition invalid_thresholds_manifest :: Manifest where
  "invalid_thresholds_manifest =
     default_manifest\<lparr>thresholds :=
       \<lparr>th_critical = 0.6, th_low = 0.5, th_nominal = 0.7, th_optimal = 0.9\<rparr>\<rparr>"

definition invalid_thresholds_document :: string where
  "invalid_thresholds_document =
     ''thresholds:'' @ [LF] @ ''  critical: 0.6'' @ [LF] @ ''  low: 0.5'' @ [LF]"





text \<open>Two objects with the same content, their keys in different orders at every depth.\<close>

definition document_a :: "(string \<times> jsval) list" where
  "document_a =
     [(''version'', JStr ''2.0.0''),
      (''project'', JObj [(''name'', JStr ''LUMEN OS''), (''repository'', JStr [])]),
      (''thresholds'', JObj [(''critical'', JNum 0.3), (''low'', JNum 0.5)]),
      (''metrics'',
         JObj [(''coherence'', JObj [(''weight'', JNum 0.25), (''sources'', JArr [JStr ''tests''])]),
               (''ci'', JObj [(''weight'', JNum 0.5), (''sources'', JArr [])])])]"

definition document_b :: "(string \<times> jsval) list" where
  "document_b =
     [(''metrics'',
         JObj [(''ci'', JObj [(''sources'', JArr []), (''weight'', JNum 0.5)]),
               (''coherence'', JObj [(''sources'', JArr [JStr ''tests'']), (''weight'', JNum 0.25)])]),
      (''thresholds'', JObj [(''low'', JNum 0.5), (''critical'', JNum 0.3)]),
      (''version'', JStr ''2.0.0''),
      (''project'', JObj [(''repository'', JStr []), (''name'', JStr ''LUMEN OS'')])]"

section \<open>Notions used to state the properties of Generator B\<close>

text \<open>
  The five files that \<open>generate\<close> pushes for a manifest, and the bundle before its
  aggregate hash is set.
\<close>

definition generated_files :: "platform \<Rightarrow> generator_parts \<Rightarrow> jsval \<Rightarrow> GeneratedFile list" where
  "generated_files p g m =
     [build_file p ''types.ts'' types (typesText g m),
      build_file p ''constants.ts'' constants (constantsText g m),
      build_file p ''validators.ts'' validators (validatorsText g m),
      build_file p ''config.ts'' config (configText g),
      buildIndexFile (platform_sha256 p)
        [build_file p ''types.ts'' types (typesText g m),
         build_file p ''constants.ts'' constants (constantsText g m),
         build_file p ''validators.ts'' validators (validatorsText g m),
         build_file p ''config.ts'' config (configText g)]]"

definition unhashed_output :: "platform \<Rightarrow> generator_parts \<Rightarrow> clock \<Rightarrow> jsval \<Rightarrow> string \<Rightarrow> CodegenOutput" where
  "unhashed_output p g clk m js =
     \<lparr>files = generated_files p g m,
      metadata =
        \<lparr>timestamp = isoTime clk, version = VERSION,
          manifestHash = generateHash (platform_sha256 p) js,
          durationMs = endTime clk - startTime clk,
          generator = Some GENERATOR, fileCount = Some (length (generated_files p g m))\<rparr>,
      bundle_hash = []\<rparr>"

text \<open>A platform with one manifest file, a stand-in digest, and stand-in parts.\<close>

definition sample_platform :: platform where
  "sample_platform =
     \<lparr>platform_sha256 = (\<lambda>s. string_of_nat (length s) @ rev s),
      platform_numberToString = (\<lambda>x. []),
      platform_resolve = (\<lambda>path. ''/repo/'' @ path),
      platform_file = (\<lambda>path. if path = ''/repo/manifest.example.yaml''
                                then Readable (''version: '' @ [DQ] @ ''2.0.0'' @ [DQ] @ [LF])
                                else Missing)\<rparr>"

definition sample_parts :: generator_parts where
  "sample_parts =
     \<lparr>extractManifest = (\<lambda>content. JObj [(''version'', JStr (take 5 (drop 10 content)))]),
      typesText = (\<lambda>m. ''export type FrequencyBand = string;'' @ [LF]),
      constantsText = (\<lambda>m. ''export const THRESHOLDS = {} as const;'' @ [LF]),
      validatorsText = (\<lambda>m. ''export function validateWeights(): boolean { return true; }'' @ [LF]),
      configText = ''export default config;'' @ [LF]\<rparr>"

definition sample_config :: CodegenConfig where
  "sample_config = \<lparr>manifestPath = ''manifest.example.yaml'', outputDir = ''./dist''\<rparr>"

section \<open>Properties of the diff builder and the adjudicator\<close>

subsection \<open>Auxiliary facts\<close>

lemma js_set_foldl:
  "set (foldl (\<lambda>acc x. if x \<in> set acc then acc else acc @ [x]) acc xs) = set acc \<union> set xs"
  by (induction xs arbitrary: acc) auto
lemma set_js_set: "set (js_set xs) = set xs"
  by (simp add: js_set_def js_set_foldl)
lemma compareContentSemantic_severity:
  "d \<in> set (compareContentSemantic c1 c2 p opts) \<Longrightarrow> d_severity d = major \<and> d_type d = CONTENT_DIFF"
  by (auto simp: compareContentSemantic_def Let_def split: if_splits)
lemma decide_empty: "decide_verdict [] = (MATCH, True, 1)"
  by (simp add: decide_verdict_def)
lemma decide_critical:
  "\<exists>d\<in>set ds. d_severity d = critical \<Longrightarrow> decide_verdict ds = (MISMATCH, False, 0.95)"
  by (auto simp: decide_verdict_def Let_def filter_empty_conv)
lemma decide_major:
  "\<exists>d\<in>set ds. d_severity d = major \<Longrightarrow> \<not> (\<exists>d\<in>set ds. d_severity d = critical) \<Longrightarrow>
   decide_verdict ds = (PARTIAL_MATCH, False, 0.8)"
  by (auto simp: decide_verdict_def Let_def filter_empty_conv)
lemma decide_minor:
  "ds \<noteq> [] \<Longrightarrow> \<forall>d\<in>set ds. d_severity d = minor \<or> d_severity d = info \<Longrightarrow>
   decide_verdict ds = (MATCH, True, 0.9)"
  by (auto simp: decide_verdict_def Let_def filter_empty_conv)
lemma adjudicate_Inr:
  "compare input = Inr ds \<Longrightarrow>
   \<exists>v. adjudicate now input = Inr v \<and> diffs v = ds
     \<and> (verdict v, semanticallyEquivalent v, confidence v) = decide_verdict ds"
  by (auto simp: adjudicate_def split: prod.splits)
lemma buildDiff_mismatches:
  "mismatches (buildDiff now a3 a4) =
     map (\<lambda>path. \<lparr>m_type = MISSING_FILE, m_severity = critical, m_path = path,
                    m_description = ''File exists in A3 but missing in A4'',
                    m_a3Value = Some ''present'', m_a4Value = Some ''missing''\<rparr>)
       (filter (\<lambda>path. path \<notin> set (map file_path (files a4))) (js_set (map file_path (files a3))))
     @ map (\<lambda>path. \<lparr>m_type = EXTRA_FILE, m_severity = critical, m_path = path,
                    m_description = ''File exists in A4 but missing in A3'',
                    m_a3Value = Some ''missing'', m_a4Value = Some ''present''\<rparr>)
       (filter (\<lambda>path. path \<notin> set (map file_path (files a3))) (js_set (map file_path (files a4))))
     @ concat (map (\<lambda>a3File.
              (case find (\<lambda>f. file_path f = file_path a3File) (files a4) of
                 None \<Rightarrow> []
               | Some a4File \<Rightarrow>
                   if file_hash a3File \<noteq> file_hash a4File
                   then \<lparr>m_type = HASH_MISMATCH, m_severity = major, m_path = file_path a3File,
                          m_description = ''File hashes differ'',
                          m_a3Value = Some (file_hash a3File),
                          m_a4Value = Some (file_hash a4File)\<rparr>
                        # compareContent (file_content a3File) (file_content a4File) (file_path a3File)
                   else [])) (files a3))
     @ compareMetadata (metadata a3) (metadata a4)"
  by (simp add: buildDiff_def Let_def set_js_set)
lemma buildDiff_criticalCount:
  "criticalCount (summary (buildDiff now a3 a4))
     = length (filter (\<lambda>m. m_severity m = critical) (mismatches (buildDiff now a3 a4)))"
  by (simp add: buildDiff_def Let_def)
lemma buildDiff_majorCount:
  "majorCount (summary (buildDiff now a3 a4))
     = length (filter (\<lambda>m. m_severity m = major) (mismatches (buildDiff now a3 a4)))"
  by (simp add: buildDiff_def Let_def)
lemma generateDiffReport_verdict:
  "rep_verdict (generateDiffReport r) =
     (if criticalCount (summary r) = 0 \<and> majorCount (summary r) = 0 then MATCH
      else if criticalCount (summary r) > 0 then MISMATCH
      else PARTIAL_MATCH)"
  by (simp add: generateDiffReport_def)
lemma missing_in_a4:
  assumes "p \<in> set (map file_path (files a3))" "p \<notin> set (map file_path (files a4))"
  shows "\<lparr>m_type = MISSING_FILE, m_severity = critical, m_path = p,
           m_description = ''File exists in A3 but missing in A4'',
           m_a3Value = Some ''present'', m_a4Value = Some ''missing''\<rparr>
         \<in> set (mismatches (buildDiff now a3 a4))"
proof -
  have "p \<in> set (filter (\<lambda>path. path \<notin> set (map file_path (files a4))) (js_set (map file_path (files a3))))"
    using assms by (simp add: set_js_set)
  then show ?thesis
    unfolding buildDiff_mismatches by (simp add: image_iff)
qed
lemma extra_in_a4:
  assumes "p \<in> set (map file_path (files a4))" "p \<notin> set (map file_path (files a3))"
  shows "\<lparr>m_type = EXTRA_FILE, m_severity = critical, m_path = p,
           m_description = ''File exists in A4 but missing in A3'',
           m_a3Value = Some ''missing'', m_a4Value = Some ''present''\<rparr>
         \<in> set (mismatches (buildDiff now a3 a4))"
proof -
  have "p \<in> set (filter (\<lambda>path. path \<notin> set (map file_path (files a3))) (js_set (map file_path (files a4))))"
    using assms by (simp add: set_js_set)
  then show ?thesis
    unfolding buildDiff_mismatches by (simp add: image_iff)
qed
lemma critical_gives_MISMATCH:
  assumes "m \<in> set (mismatches (buildDiff now a3 a4))" "m_severity m = critical"
  shows "rep_verdict (generateDiffReport (buildDiff now a3 a4)) = MISMATCH"
proof -
  have "filter (\<lambda>m. m_severity m = critical) (mismatches (buildDiff now a3 a4)) \<noteq> []"
    using assms by (auto simp: filter_empty_conv)
  then have "0 < criticalCount (summary (buildDiff now a3 a4))"
    by (simp add: buildDiff_criticalCount)
  then show ?thesis by (simp add: generateDiffReport_verdict)
qed
lemma compare_both:
  "compare \<lparr>a3Output = Some a3, a4Output = Some a4, options = opts\<rparr> =
     Inr (map (\<lambda>path. \<lparr>d_path = path, d_type = MISSING_FILE, d_severity = critical,
                             d_description = ''File exists in A3 but missing in A4'',
                             d_a3Value = Some ''present'', d_a4Value = Some ''missing'',
                             d_location = None\<rparr>)
            (filter (\<lambda>path. path \<notin> set (map file_path (files a4))) (js_set (map file_path (files a3))))
          @ map (\<lambda>path. \<lparr>d_path = path, d_type = EXTRA_FILE, d_severity = critical,
                             d_description = ''File exists in A4 but missing in A3'',
                             d_a3Value = Some ''missing'', d_a4Value = Some ''present'',
                             d_location = None\<rparr>)
            (filter (\<lambda>path. path \<notin> set (map file_path (files a3))) (js_set (map file_path (files a4))))
          @ concat (map (\<lambda>a3File.
                       (case find (\<lambda>f. file_path f = file_path a3File) (files a4) of
                          None \<Rightarrow> []
                        | Some a4File \<Rightarrow>
                            if file_hash a3File \<noteq> file_hash a4File
                            then compareContentSemantic (file_content a3File) (file_content a4File)
                                   (file_path a3File) opts
                            else [])) (files a3)))"
  by (simp add: compare_def Let_def set_js_set cong: option.case_cong if_cong)
lemma compare_severity:
  assumes "compare input = Inr ds" "d \<in> set ds"
  shows "(d_severity d = critical \<and> (d_type d = MISSING_FILE \<or> d_type d = EXTRA_FILE))
   \<or> (d_severity d = major \<and> d_type d = CONTENT_DIFF)"
proof -
  from assms(1) obtain a3 a4 where ab: "a3Output input = Some a3" "a4Output input = Some a4"
    by (auto simp: compare_def split: option.splits)
  have "input = \<lparr>a3Output = Some a3, a4Output = Some a4, options = options input\<rparr>"
    using ab by simp
  then have "compare \<lparr>a3Output = Some a3, a4Output = Some a4, options = options input\<rparr> = Inr ds"
    using assms(1) by simp
  then have "d \<in> set (map (\<lambda>path. \<lparr>d_path = path, d_type = MISSING_FILE, d_severity = critical,
                             d_description = ''File exists in A3 but missing in A4'',
                             d_a3Value = Some ''present'', d_a4Value = Some ''missing'',
                             d_location = None\<rparr>)
            (filter (\<lambda>path. path \<notin> set (map file_path (files a4))) (js_set (map file_path (files a3)))))
      \<or> d \<in> set (map (\<lambda>path. \<lparr>d_path = path, d_type = EXTRA_FILE, d_severity = critical,
                             d_description = ''File exists in A4 but missing in A3'',
                             d_a3Value = Some ''missing'', d_a4Value = Some ''present'',
                             d_location = None\<rparr>)
            (filter (\<lambda>path. path \<notin> set (map file_path (files a3))) (js_set (map file_path (files a4)))))
      \<or> d \<in> set (concat (map (\<lambda>a3File.
                       (case find (\<lambda>f. file_path f = file_path a3File) (files a4) of
                          None \<Rightarrow> []
                        | Some a4File \<Rightarrow>
                            if file_hash a3File \<noteq> file_hash a4File
                            then compareContentSemantic (file_content a3File) (file_content a4File)
                                   (file_path a3File) (options input)
                            else [])) (files a3)))"
    using assms(2) unfolding compare_both by auto
  then show ?thesis
  proof (elim disjE)
    assume "d \<in> set (concat (map (\<lambda>a3File.
                       (case find (\<lambda>f. file_path f = file_path a3File) (files a4) of
                          None \<Rightarrow> []
                        | Some a4File \<Rightarrow>
                            if file_hash a3File \<noteq> file_hash a4File
                            then compareContentSemantic (file_content a3File) (file_content a4File)
                                   (file_path a3File) (options input)
                            else [])) (files a3)))"
    then show ?thesis
      by (auto split: option.splits if_splits dest: compareContentSemantic_severity)
  qed auto
qed
lemma compare_one_sided:
  assumes "(p \<in> set (map file_path (files a3)) \<and> p \<notin> set (map file_path (files a4)))
         \<or> (p \<in> set (map file_path (files a4)) \<and> p \<notin> set (map file_path (files a3)))"
  shows "\<exists>ds. compare \<lparr>a3Output = Some a3, a4Output = Some a4, options = opts\<rparr> = Inr ds
           \<and> (\<exists>d\<in>set ds. d_severity d = critical \<and> d_path d = p
                 \<and> (d_type d = MISSING_FILE \<or> d_type d = EXTRA_FILE))"
proof -
  let ?miss = "\<lparr>d_path = p, d_type = MISSING_FILE, d_severity = critical,
                 d_description = ''File exists in A3 but missing in A4'',
                 d_a3Value = Some ''present'', d_a4Value = Some ''missing'',
                 d_location = None\<rparr>"
  let ?extra = "\<lparr>d_path = p, d_type = EXTRA_FILE, d_severity = critical,
                 d_description = ''File exists in A4 but missing in A3'',
                 d_a3Value = Some ''missing'', d_a4Value = Some ''present'',
                 d_location = None\<rparr>"
  obtain ds where ds: "compare \<lparr>a3Output = Some a3, a4Output = Some a4, options = opts\<rparr> = Inr ds"
    unfolding compare_both by blast
  from assms show ?thesis
  proof
    assume a: "p \<in> set (map file_path (files a3)) \<and> p \<notin> set (map file_path (files a4))"
    then have "p \<in> set (filter (\<lambda>path. path \<notin> set (map file_path (files a4)))
                         (js_set (map file_path (files a3))))"
      by (simp add: set_js_set)
    then have "?miss \<in> set ds"
      using ds unfolding compare_both by (auto simp: image_iff)
    then show ?thesis using ds by (intro exI [of _ ds] conjI bexI [of _ ?miss]) simp_all
  next
    assume a: "p \<in> set (map file_path (files a4)) \<and> p \<notin> set (map file_path (files a3))"
    then have "p \<in> set (filter (\<lambda>path. path \<notin> set (map file_path (files a3)))
                         (js_set (map file_path (files a4))))"
      by (simp add: set_js_set)
    then have "?extra \<in> set ds"
      using ds unfolding compare_both by (auto simp: image_iff)
    then show ?thesis using ds by (intro exI [of _ ds] conjI bexI [of _ ?extra]) simp_all
  qed
qed
lemma exports_foo1: "extractExports ''export const foo = 1;'' = [''foo'']"
  by (simp add: extractExports_def match_export_def is_space_def is_word_def)
lemma exports_foo2: "extractExports ''export const foo = 2;'' = [''foo'']"
  by (simp add: extractExports_def match_export_def is_space_def is_word_def)
lemma lines_foo1: "length (split_lines ''export const foo = 1;'') = 1"
  by (simp add: LF_def)
lemma lines_foo2: "length (split_lines ''export const foo = 2;'') = 1"
  by (simp add: LF_def)
lemma compareContent_foo:
  "compareContent ''export const foo = 1;'' ''export const foo = 2;'' p = []"
  by (simp add: compareContent_def exports_foo1 exports_foo2 lines_foo1 lines_foo2 del: split_lines.simps)
lemma normalizeWhitespace_foo1:
  "normalizeWhitespace ''export const foo = 1;'' = ''export const foo = 1;''"
  by (simp add: normalizeWhitespace_def trim_def is_space_def is_blank_def LF_def CR_def)
lemma normalizeWhitespace_foo2:
  "normalizeWhitespace ''export const foo = 2;'' = ''export const foo = 2;''"
  by (simp add: normalizeWhitespace_def trim_def is_space_def is_blank_def LF_def CR_def)
lemma removeComments_foo1:
  "removeComments ''export const foo = 1;'' = ''export const foo = 1;''"
  by (simp add: removeComments_def)
lemma removeComments_foo2:
  "removeComments ''export const foo = 2;'' = ''export const foo = 2;''"
  by (simp add: removeComments_def)
lemma compareContentSemantic_foo:
  "compareContentSemantic ''export const foo = 1;'' ''export const foo = 2;'' p opts =
     [\<lparr>d_path = p, d_type = CONTENT_DIFF, d_severity = major,
       d_description = ''File content differs between A3 and A4'',
       d_a3Value = Some ''export const foo = 1;'', d_a4Value = Some ''export const foo = 2;'',
       d_location = None\<rparr>]"
  by (simp add: compareContentSemantic_def Let_def excerpt_def normalizeWhitespace_foo1
      normalizeWhitespace_foo2 removeComments_foo1 removeComments_foo2)
lemma compareMetadata_same:
  "version m1 = version m2 \<Longrightarrow> generator m1 = generator m2 \<Longrightarrow> manifestHash m1 = manifestHash m2 \<Longrightarrow>
   compareMetadata m1 m2 = []"
  by (simp add: compareMetadata_def)
lemma compare_identical:
  "compare \<lparr>a3Output = Some mockA3Output, a4Output = Some mockA4OutputIdentical, options = None\<rparr> = Inr []"
  unfolding compare_both by (simp add: mockA3Output_def mockA4OutputIdentical_def js_set_def)

subsection \<open>The verdict table of the adjudicator\<close>

text \<open>
  C2. For every comparison input whose comparison yields the diff list \<open>ds\<close>,
  \<open>adjudicate\<close> returns a verdict that carries \<open>ds\<close> and the triple that the function's
  chain of tests assigns to \<open>ds\<close>; and that triple is: MATCH, equivalent, confidence 1.0
  when there is no diff; MISMATCH, not equivalent, 0.95 when some diff is critical;
  PARTIAL_MATCH, not equivalent, 0.8 when some diff is major and none is critical; MATCH,
  equivalent, 0.9 when there are diffs and every one of them is minor or info. The four rows
  are proved for every diff list, not only for those \<open>compare\<close> can produce.
\<close>

theorem adjudicate_verdict_table:
  "(compare input = Inr ds \<longrightarrow>
      (\<exists>v. adjudicate now input = Inr v \<and> diffs v = ds
         \<and> (verdict v, semanticallyEquivalent v, confidence v) = decide_verdict ds))
   \<and> (ds = [] \<longrightarrow> decide_verdict ds = (MATCH, True, 1.0))
   \<and> ((\<exists>d\<in>set ds. d_severity d = critical) \<longrightarrow> decide_verdict ds = (MISMATCH, False, 0.95))
   \<and> ((\<exists>d\<in>set ds. d_severity d = major) \<and> \<not> (\<exists>d\<in>set ds. d_severity d = critical)
        \<longrightarrow> decide_verdict ds = (PARTIAL_MATCH, False, 0.8))
   \<and> (ds \<noteq> [] \<and> (\<forall>d\<in>set ds. d_severity d = minor \<or> d_severity d = info)
        \<longrightarrow> decide_verdict ds = (MATCH, True, 0.9))"
  using adjudicate_Inr [of input ds now] decide_empty decide_critical [of ds]
    decide_major [of ds] decide_minor [of ds]
  by (intro conjI impI) (simp_all)

theorem adjudicate_verdict_table_witness:
  "compare \<lparr>a3Output = Some mockA3Output, a4Output = Some mockA4OutputIdentical, options = None\<rparr> = Inr []
   \<and> (\<exists>v. adjudicate ''2024-01-01T00:00:02Z''
            \<lparr>a3Output = Some mockA3Output, a4Output = Some mockA4OutputIdentical, options = None\<rparr> = Inr v
          \<and> diffs v = [] \<and> verdict v = MATCH \<and> semanticallyEquivalent v \<and> confidence v = 1.0)
   \<and> decide_verdict [sample_diff info, sample_diff critical, sample_diff major] = (MISMATCH, False, 0.95)
   \<and> decide_verdict [sample_diff minor, sample_diff major] = (PARTIAL_MATCH, False, 0.8)
   \<and> decide_verdict [sample_diff minor, sample_diff info] = (MATCH, True, 0.9)"
proof -
  note t = adjudicate_verdict_table
  have a: "\<exists>v. adjudicate ''2024-01-01T00:00:02Z''
            \<lparr>a3Output = Some mockA3Output, a4Output = Some mockA4OutputIdentical, options = None\<rparr> = Inr v
          \<and> diffs v = [] \<and> verdict v = MATCH \<and> semanticallyEquivalent v \<and> confidence v = 1.0"
    using t [of "\<lparr>a3Output = Some mockA3Output, a4Output = Some mockA4OutputIdentical, options = None\<rparr>"
               "[]" "''2024-01-01T00:00:02Z''"] compare_identical
    by auto
  have b: "decide_verdict [sample_diff info, sample_diff critical, sample_diff major] = (MISMATCH, False, 0.95)"
    using t [of "\<lparr>a3Output = None, a4Output = None, options = None\<rparr>"
        "[sample_diff info, sample_diff critical, sample_diff major]" "[]"]
    by (simp add: sample_diff_def)
  have c: "decide_verdict [sample_diff minor, sample_diff major] = (PARTIAL_MATCH, False, 0.8)"
    using t [of "\<lparr>a3Output = None, a4Output = None, options = None\<rparr>"
        "[sample_diff minor, sample_diff major]" "[]"]
    by (simp add: sample_diff_def)
  have d: "decide_verdict [sample_diff minor, sample_diff info] = (MATCH, True, 0.9)"
    using t [of "\<lparr>a3Output = None, a4Output = None, options = None\<rparr>"
        "[sample_diff minor, sample_diff info]" "[]"]
    by (simp add: sample_diff_def)
  from a b c d compare_identical show ?thesis by blast
qed

subsection \<open>The verdict of the diff report\<close>

text \<open>
  C3. For every pair of bundles, the verdict of \<open>generateDiffReport\<close> on the result of
  \<open>buildDiff\<close> is MATCH exactly when the summary counts no critical and no major
  mismatch, MISMATCH exactly when it counts at least one critical mismatch, and
  PARTIAL_MATCH exactly in the remaining case; the two counts are the numbers of
  mismatches of that severity in the result.
\<close>

theorem report_verdict_from_summary:
  "(rep_verdict (generateDiffReport (buildDiff now a3 a4)) = MATCH \<longleftrightarrow>
      criticalCount (summary (buildDiff now a3 a4)) = 0 \<and> majorCount (summary (buildDiff now a3 a4)) = 0)
   \<and> (rep_verdict (generateDiffReport (buildDiff now a3 a4)) = MISMATCH \<longleftrightarrow>
      criticalCount (summary (buildDiff now a3 a4)) > 0)
   \<and> (rep_verdict (generateDiffReport (buildDiff now a3 a4)) = PARTIAL_MATCH \<longleftrightarrow>
      \<not> (criticalCount (summary (buildDiff now a3 a4)) = 0 \<and> majorCount (summary (buildDiff now a3 a4)) = 0)
      \<and> \<not> criticalCount (summary (buildDiff now a3 a4)) > 0)
   \<and> criticalCount (summary (buildDiff now a3 a4))
        = length (filter (\<lambda>m. m_severity m = critical) (mismatches (buildDiff now a3 a4)))
   \<and> majorCount (summary (buildDiff now a3 a4))
        = length (filter (\<lambda>m. m_severity m = major) (mismatches (buildDiff now a3 a4)))"
  unfolding generateDiffReport_verdict
  using buildDiff_criticalCount [of now a3 a4] buildDiff_majorCount [of now a3 a4]
  by simp

theorem report_verdict_from_summary_witness:
  "rep_verdict (generateDiffReport (buildDiff ''2024-01-01T00:00:02Z'' mockA3Output mockA4OutputDifferent))
     = PARTIAL_MATCH
   \<and> criticalCount (summary (buildDiff ''2024-01-01T00:00:02Z'' mockA3Output mockA4OutputDifferent)) = 0
   \<and> majorCount (summary (buildDiff ''2024-01-01T00:00:02Z'' mockA3Output mockA4OutputDifferent)) = 1"
proof -
  have ms: "mismatches (buildDiff ''2024-01-01T00:00:02Z'' mockA3Output mockA4OutputDifferent) =
           [\<lparr>m_type = HASH_MISMATCH, m_severity = major, m_path = ''index.ts'',
             m_description = ''File hashes differ'',
             m_a3Value = Some ''abc123'', m_a4Value = Some ''def456''\<rparr>]"
    unfolding buildDiff_mismatches
    by (simp add: mockA3Output_def mockA4OutputDifferent_def js_set_def compareContent_foo compareMetadata_same)
  show ?thesis
    using report_verdict_from_summary [of "''2024-01-01T00:00:02Z''" mockA3Output mockA4OutputDifferent]
    unfolding ms by simp
qed

subsection \<open>One file, two contents\<close>

text \<open>
  C4. Two bundles hold one file each, \<open>index.ts\<close>, with the contents
  \<open>export const foo = 1;\<close> and \<open>export const foo = 2;\<close>; the files' hash fields differ,
  as the content hashes of different contents do, and the metadata agree (on version,
  generator and manifest hash, the three fields that are compared). Then \<open>buildDiff\<close>
  reports exactly one mismatch, a HASH_MISMATCH of severity major, and no CONTENT_DIFF; and
  \<open>adjudicate\<close>, under any options, returns PARTIAL_MATCH with confidence 0.8 and
  semanticallyEquivalent false.
\<close>

theorem foo_scenario:
  assumes "files a3 = [fa]" "files a4 = [fb]"
    and "file_path fa = ''index.ts''" "file_path fb = ''index.ts''"
    and "file_content fa = ''export const foo = 1;''" "file_content fb = ''export const foo = 2;''"
    and "file_hash fa \<noteq> file_hash fb"
    and "version (metadata a3) = version (metadata a4)"
    and "generator (metadata a3) = generator (metadata a4)"
    and "manifestHash (metadata a3) = manifestHash (metadata a4)"
  shows "mismatches (buildDiff now a3 a4) =
           [\<lparr>m_type = HASH_MISMATCH, m_severity = major, m_path = ''index.ts'',
             m_description = ''File hashes differ'',
             m_a3Value = Some (file_hash fa), m_a4Value = Some (file_hash fb)\<rparr>]
       \<and> length (filter (\<lambda>m. m_type m = HASH_MISMATCH) (mismatches (buildDiff now a3 a4))) = 1
       \<and> filter (\<lambda>m. m_type m = CONTENT_DIFF) (mismatches (buildDiff now a3 a4)) = []
       \<and> (\<exists>v. adjudicate now \<lparr>a3Output = Some a3, a4Output = Some a4, options = opts\<rparr> = Inr v
              \<and> verdict v = PARTIAL_MATCH \<and> confidence v = 0.8 \<and> \<not> semanticallyEquivalent v)"
proof -
  have ms: "mismatches (buildDiff now a3 a4) =
           [\<lparr>m_type = HASH_MISMATCH, m_severity = major, m_path = ''index.ts'',
             m_description = ''File hashes differ'',
             m_a3Value = Some (file_hash fa), m_a4Value = Some (file_hash fb)\<rparr>]"
    unfolding buildDiff_mismatches
    using assms by (simp add: js_set_def compareContent_foo compareMetadata_same)
  have cmp: "compare \<lparr>a3Output = Some a3, a4Output = Some a4, options = opts\<rparr> =
      Inr [\<lparr>d_path = ''index.ts'', d_type = CONTENT_DIFF, d_severity = major,
       d_description = ''File content differs between A3 and A4'',
       d_a3Value = Some ''export const foo = 1;'', d_a4Value = Some ''export const foo = 2;'',
       d_location = None\<rparr>]"
    unfolding compare_both
    using assms by (simp add: js_set_def compareContentSemantic_foo)
  obtain v where v: "adjudicate now \<lparr>a3Output = Some a3, a4Output = Some a4, options = opts\<rparr> = Inr v"
     "(verdict v, semanticallyEquivalent v, confidence v) = decide_verdict [\<lparr>d_path = ''index.ts'', d_type = CONTENT_DIFF, d_severity = major,
       d_description = ''File content differs between A3 and A4'',
       d_a3Value = Some ''export const foo = 1;'', d_a4Value = Some ''export const foo = 2;'',
       d_location = None\<rparr>]"
    using adjudicate_Inr [OF cmp, of now] by blast
  from v(2) have "verdict v = PARTIAL_MATCH \<and> confidence v = 0.8 \<and> \<not> semanticallyEquivalent v"
    by (simp add: decide_verdict_def)
  with v(1) ms show ?thesis by simp
qed

theorem foo_scenario_witness:
  "mismatches (buildDiff ''2024-01-01T00:00:02Z'' mockA3Output mockA4OutputDifferent) =
           [\<lparr>m_type = HASH_MISMATCH, m_severity = major, m_path = ''index.ts'',
             m_description = ''File hashes differ'',
             m_a3Value = Some ''abc123'', m_a4Value = Some ''def456''\<rparr>]
   \<and> (\<exists>v. adjudicate ''2024-01-01T00:00:02Z''
            \<lparr>a3Output = Some mockA3Output, a4Output = Some mockA4OutputDifferent, options = None\<rparr> = Inr v
          \<and> verdict v = PARTIAL_MATCH \<and> confidence v = 0.8 \<and> \<not> semanticallyEquivalent v)"
  using foo_scenario [of mockA3Output
      "\<lparr>file_path = ''index.ts'', file_content = ''export const foo = 1;'',
         file_hash = ''abc123'', file_type = None\<rparr>"
      mockA4OutputDifferent
      "\<lparr>file_path = ''index.ts'', file_content = ''export const foo = 2;'',
         file_hash = ''def456'', file_type = None\<rparr>"
      "''2024-01-01T00:00:02Z''" None]
  by (simp add: mockA3Output_def mockA4OutputDifferent_def)

subsection \<open>A file on one side only\<close>

text \<open>
  C5. When a path \<open>p\<close> is the path of a file of one bundle and of no file of the other,
  \<open>buildDiff\<close> emits a MISSING_FILE or EXTRA_FILE mismatch of severity critical for \<open>p\<close>
  and \<open>generateDiffReport\<close> derives MISMATCH; \<open>compare\<close> emits a critical diff for \<open>p\<close>
  and \<open>adjudicate\<close> returns MISMATCH.
\<close>

theorem one_sided_file_is_MISMATCH:
  assumes "(p \<in> set (map file_path (files a3)) \<and> p \<notin> set (map file_path (files a4)))
         \<or> (p \<in> set (map file_path (files a4)) \<and> p \<notin> set (map file_path (files a3)))"
  shows "(\<exists>m\<in>set (mismatches (buildDiff now a3 a4)).
            (m_type m = MISSING_FILE \<or> m_type m = EXTRA_FILE) \<and> m_severity m = critical \<and> m_path m = p)
       \<and> rep_verdict (generateDiffReport (buildDiff now a3 a4)) = MISMATCH
       \<and> (\<exists>ds v. compare \<lparr>a3Output = Some a3, a4Output = Some a4, options = opts\<rparr> = Inr ds
             \<and> (\<exists>d\<in>set ds. d_severity d = critical \<and> d_path d = p)
             \<and> adjudicate now \<lparr>a3Output = Some a3, a4Output = Some a4, options = opts\<rparr> = Inr v
             \<and> verdict v = MISMATCH)"
proof -
  obtain m where m: "m \<in> set (mismatches (buildDiff now a3 a4))"
      "m_type m = MISSING_FILE \<or> m_type m = EXTRA_FILE" "m_severity m = critical" "m_path m = p"
    using assms missing_in_a4 [of p a3 a4 now] extra_in_a4 [of p a4 a3 now]
    by (metis DiffMismatch.select_convs(1,2,3))
  have rep: "rep_verdict (generateDiffReport (buildDiff now a3 a4)) = MISMATCH"
    using critical_gives_MISMATCH [OF m(1) m(3)] .
  obtain ds where ds: "compare \<lparr>a3Output = Some a3, a4Output = Some a4, options = opts\<rparr> = Inr ds"
      "\<exists>d\<in>set ds. d_severity d = critical \<and> d_path d = p"
    using compare_one_sided [OF assms, of opts] by blast
  obtain v where v: "adjudicate now \<lparr>a3Output = Some a3, a4Output = Some a4, options = opts\<rparr> = Inr v"
      "(verdict v, semanticallyEquivalent v, confidence v) = decide_verdict ds"
    using adjudicate_Inr [OF ds(1), of now] by blast
  have "decide_verdict ds = (MISMATCH, False, 0.95)"
    using ds(2) by (intro decide_critical) blast
  with v(2) have "verdict v = MISMATCH" by simp
  with m rep ds v(1) show ?thesis by blast
qed

theorem one_sided_file_is_MISMATCH_witness:
  "''index.ts'' \<in> set (map file_path (files mockA3Output))
   \<and> ''index.ts'' \<notin> set (map file_path (files a4Missing))
   \<and> (\<exists>m\<in>set (mismatches (buildDiff ''2024-01-01T00:00:02Z'' mockA3Output a4Missing)).
         (m_type m = MISSING_FILE \<or> m_type m = EXTRA_FILE) \<and> m_severity m = critical \<and> m_path m = ''index.ts'')
   \<and> rep_verdict (generateDiffReport (buildDiff ''2024-01-01T00:00:02Z'' mockA3Output a4Missing)) = MISMATCH
   \<and> (\<exists>v. adjudicate ''2024-01-01T00:00:02Z''
              \<lparr>a3Output = Some mockA3Output, a4Output = Some a4Missing, options = None\<rparr> = Inr v
            \<and> verdict v = MISMATCH)"
proof -
  have h: "''index.ts'' \<in> set (map file_path (files mockA3Output))
            \<and> ''index.ts'' \<notin> set (map file_path (files a4Missing))"
    by (simp add: mockA3Output_def a4Missing_def)
  then have "(''index.ts'' \<in> set (map file_path (files mockA3Output))
              \<and> ''index.ts'' \<notin> set (map file_path (files a4Missing)))
           \<or> (''index.ts'' \<in> set (map file_path (files a4Missing))
              \<and> ''index.ts'' \<notin> set (map file_path (files mockA3Output)))" ..
  from one_sided_file_is_MISMATCH [OF this, of "''2024-01-01T00:00:02Z''" None] h
  show ?thesis by blast
qed

subsection \<open>Absent bundles and faults\<close>

text \<open>
  C8, as the code has it. \<open>adjudicate\<close> tests nothing and catches nothing. With an
  absent bundle it raises the run time's \<open>TypeError\<close>; whatever fault \<open>compare\<close> raises
  leaves \<open>adjudicate\<close> unchanged, so no verdict is returned for it (in particular not
  MATCH); it never returns an InvalidInput failure; and a verdict it does return comes
  from a completed comparison and is never ERROR (nor INCONCLUSIVE).
\<close>

theorem adjudicate_fault_propagates:
  "(a3Output input = None \<or> a4Output input = None \<longrightarrow> adjudicate now input = Inl TypeError)
   \<and> (compare input = Inl e \<longrightarrow> adjudicate now input = Inl e)
   \<and> adjudicate now input \<noteq> Inl InvalidInput
   \<and> (adjudicate now input = Inr v \<longrightarrow>
        compare input = Inr (diffs v) \<and> verdict v \<noteq> ERROR \<and> verdict v \<noteq> INCONCLUSIVE)"
proof -
  have 1: "a3Output input = None \<or> a4Output input = None \<Longrightarrow> compare input = Inl TypeError"
    by (auto simp: compare_def split: option.splits)
  have 2: "compare input \<noteq> Inl InvalidInput"
    by (auto simp: compare_def Let_def split: option.splits)
  have 3: "\<And>e. compare input = Inl e \<Longrightarrow> adjudicate now input = Inl e"
    by (simp add: adjudicate_def)
  have 4: "adjudicate now input = Inr v \<Longrightarrow>
        compare input = Inr (diffs v) \<and> verdict v \<noteq> ERROR \<and> verdict v \<noteq> INCONCLUSIVE"
    by (auto simp: adjudicate_def decide_verdict_def Let_def split: sum.splits prod.splits if_splits)
  have 5: "adjudicate now input \<noteq> Inl InvalidInput"
    using 2 by (auto simp: adjudicate_def split: sum.splits prod.splits)
  from 1 3 4 5 show ?thesis by blast
qed

theorem adjudicate_fault_propagates_witness:
  "adjudicate ''2024-01-01T00:00:02Z''
     \<lparr>a3Output = Some mockA3Output, a4Output = None, options = None\<rparr> = Inl TypeError
   \<and> compare \<lparr>a3Output = Some mockA3Output, a4Output = None, options = None\<rparr> = Inl TypeError
   \<and> (\<exists>v. adjudicate ''2024-01-01T00:00:02Z''
            \<lparr>a3Output = Some mockA3Output, a4Output = Some mockA4OutputIdentical, options = None\<rparr> = Inr v
          \<and> verdict v \<noteq> ERROR \<and> verdict v \<noteq> INCONCLUSIVE)"
proof -
  have c: "compare \<lparr>a3Output = Some mockA3Output, a4Output = None, options = None\<rparr> = Inl TypeError"
    by (simp add: compare_def)
  have a: "adjudicate ''2024-01-01T00:00:02Z''
     \<lparr>a3Output = Some mockA3Output, a4Output = None, options = None\<rparr> = Inl TypeError"
    using adjudicate_fault_propagates
      [of "\<lparr>a3Output = Some mockA3Output, a4Output = None, options = None\<rparr>"
          "''2024-01-01T00:00:02Z''" TypeError
          "\<lparr>verdict = ERROR, confidence = 0, semanticallyEquivalent = False, diffs = [],
             v_summary = [], v_timestamp = []\<rparr>"] c
    by simp
  obtain v where v: "adjudicate ''2024-01-01T00:00:02Z''
            \<lparr>a3Output = Some mockA3Output, a4Output = Some mockA4OutputIdentical, options = None\<rparr> = Inr v"
    using adjudicate_Inr [OF compare_identical] by blast
  have "verdict v \<noteq> ERROR \<and> verdict v \<noteq> INCONCLUSIVE"
    using adjudicate_fault_propagates
      [of "\<lparr>a3Output = Some mockA3Output, a4Output = Some mockA4OutputIdentical, options = None\<rparr>"
          "''2024-01-01T00:00:02Z''" TypeError v] v
    by simp
  with a c v show ?thesis by blast
qed

text \<open>
  The claim as stated fails where the first bundle is absent: the outcome is the raised
  \<open>TypeError\<close>, which is neither an InvalidInput failure nor a verdict ERROR.
\<close>

theorem adjudicate_fault_counterexample:
  "adjudicate ''2024-01-01T00:00:02Z''
     \<lparr>a3Output = None, a4Output = Some mockA4OutputIdentical, options = None\<rparr> = Inl TypeError
   \<and> adjudicate ''2024-01-01T00:00:02Z''
     \<lparr>a3Output = None, a4Output = Some mockA4OutputIdentical, options = None\<rparr> \<noteq> Inl InvalidInput
   \<and> \<not> (\<exists>v. adjudicate ''2024-01-01T00:00:02Z''
            \<lparr>a3Output = None, a4Output = Some mockA4OutputIdentical, options = None\<rparr> = Inr v
          \<and> verdict v = ERROR)"
  by (simp add: adjudicate_def compare_def)

subsection \<open>The severities that the comparison produces\<close>

text \<open>
  C10. Every diff that \<open>compare\<close> produces is critical (a MISSING_FILE or an EXTRA_FILE)
  or major (a CONTENT_DIFF), never minor or info: so a non-empty diff list of minor and
  info diffs only does not occur, and \<open>adjudicate\<close> returns MATCH with confidence 1.0 (on
  an empty diff list), MISMATCH with 0.95 or PARTIAL_MATCH with 0.8, never MATCH with
  confidence 0.9.
\<close>

theorem compare_severities:
  assumes "compare input = Inr ds"
  shows "(\<forall>d\<in>set ds. (d_severity d = critical \<and> (d_type d = MISSING_FILE \<or> d_type d = EXTRA_FILE))
                     \<or> (d_severity d = major \<and> d_type d = CONTENT_DIFF))
       \<and> \<not> (ds \<noteq> [] \<and> (\<forall>d\<in>set ds. d_severity d = minor \<or> d_severity d = info))
       \<and> (\<exists>v. adjudicate now input = Inr v
             \<and> ((verdict v = MATCH \<and> confidence v = 1.0 \<and> ds = [])
               \<or> (verdict v = MISMATCH \<and> confidence v = 0.95)
               \<or> (verdict v = PARTIAL_MATCH \<and> confidence v = 0.8))
             \<and> \<not> (verdict v = MATCH \<and> confidence v = 0.9))"
proof -
  have sev: "\<forall>d\<in>set ds. (d_severity d = critical \<and> (d_type d = MISSING_FILE \<or> d_type d = EXTRA_FILE))
                     \<or> (d_severity d = major \<and> d_type d = CONTENT_DIFF)"
    using compare_severity [OF assms] by blast
  have unreachable: "\<not> (ds \<noteq> [] \<and> (\<forall>d\<in>set ds. d_severity d = minor \<or> d_severity d = info))"
  proof
    assume a: "ds \<noteq> [] \<and> (\<forall>d\<in>set ds. d_severity d = minor \<or> d_severity d = info)"
    then obtain d where "d \<in> set ds" by (cases ds) auto
    with a sev show False by force
  qed
  obtain v where v: "adjudicate now input = Inr v"
      "(verdict v, semanticallyEquivalent v, confidence v) = decide_verdict ds"
    using adjudicate_Inr [OF assms, of now] by blast
  consider "ds = []" | "\<exists>d\<in>set ds. d_severity d = critical"
    | "\<exists>d\<in>set ds. d_severity d = major" "\<not> (\<exists>d\<in>set ds. d_severity d = critical)"
    using sev by (cases ds) auto
  then have "(verdict v = MATCH \<and> confidence v = 1.0 \<and> ds = [])
               \<or> (verdict v = MISMATCH \<and> confidence v = 0.95)
               \<or> (verdict v = PARTIAL_MATCH \<and> confidence v = 0.8)"
  proof cases
    case 1
    with v(2) show ?thesis by (simp add: decide_empty)
  next
    case 2
    from decide_critical [OF 2] v(2) show ?thesis by simp
  next
    case 3
    from decide_major [OF 3] v(2) show ?thesis by simp
  qed
  moreover from this have "\<not> (verdict v = MATCH \<and> confidence v = 0.9)" by auto
  ultimately show ?thesis using sev unreachable v(1) by blast
qed

theorem compare_severities_witness:
  "compare \<lparr>a3Output = Some mockA3Output, a4Output = Some mockA4OutputDifferent, options = None\<rparr> =
      Inr [\<lparr>d_path = ''index.ts'', d_type = CONTENT_DIFF, d_severity = major,
            d_description = ''File content differs between A3 and A4'',
            d_a3Value = Some ''export const foo = 1;'', d_a4Value = Some ''export const foo = 2;'',
            d_location = None\<rparr>]
   \<and> (\<exists>v. adjudicate ''2024-01-01T00:00:02Z''
             \<lparr>a3Output = Some mockA3Output, a4Output = Some mockA4OutputDifferent, options = None\<rparr> = Inr v
           \<and> verdict v = PARTIAL_MATCH \<and> confidence v = 0.8)"
proof -
  have cmp: "compare \<lparr>a3Output = Some mockA3Output, a4Output = Some mockA4OutputDifferent, options = None\<rparr> =
      Inr [\<lparr>d_path = ''index.ts'', d_type = CONTENT_DIFF, d_severity = major,
            d_description = ''File content differs between A3 and A4'',
            d_a3Value = Some ''export const foo = 1;'', d_a4Value = Some ''export const foo = 2;'',
            d_location = None\<rparr>]"
    unfolding compare_both
    by (simp add: mockA3Output_def mockA4OutputDifferent_def js_set_def compareContentSemantic_foo)
  from compare_severities [OF cmp, of "''2024-01-01T00:00:02Z''"]
  obtain v where v: "adjudicate ''2024-01-01T00:00:02Z''
             \<lparr>a3Output = Some mockA3Output, a4Output = Some mockA4OutputDifferent, options = None\<rparr> = Inr v"
     "(verdict v = MATCH \<and> confidence v = 1.0 \<and> [\<lparr>d_path = ''index.ts'', d_type = CONTENT_DIFF, d_severity = major,
            d_description = ''File content differs between A3 and A4'',
            d_a3Value = Some ''export const foo = 1;'', d_a4Value = Some ''export const foo = 2;'',
            d_location = None\<rparr>] = [])
               \<or> (verdict v = MISMATCH \<and> confidence v = 0.95)
               \<or> (verdict v = PARTIAL_MATCH \<and> confidence v = 0.8)"
    by blast
  have "verdict v = PARTIAL_MATCH"
    using v(1) cmp by (auto simp: adjudicate_def decide_verdict_def)
  with v cmp show ?thesis by auto
qed

section \<open>Properties of the manifest loader\<close>

subsection \<open>Auxiliary facts\<close>

lemma validate_invalid_thresholds:
  assumes "th_critical (thresholds m) = 0.6" "th_low (thresholds m) = 0.5"
      "th_nominal (thresholds m) = 0.7" "th_optimal (thresholds m) = 0.9"
  shows "\<not> valid (validateManifest nts fl m)"
  using assms by (simp add: validateManifest_def Let_def)
lemma validate_invalid_thresholds_only:
  assumes "th_critical (thresholds m) = 0.6" "th_low (thresholds m) = 0.5"
      "th_nominal (thresholds m) = 0.7" "th_optimal (thresholds m) = 0.9"
      "manifest_version m \<noteq> []" "project_name (project m) \<noteq> []"
      "0 \<le> dh_threshold (diamond_hands m)" "dh_threshold (diamond_hands m) \<le> 1"
  shows "errors (validateManifest nts fl m) =
           [\<lparr>e_path = ''thresholds'', e_message = ''Critical threshold must be less than low'',
             e_code = ''INVALID_THRESHOLDS''\<rparr>]"
  using assms by (simp add: validateManifest_def Let_def)
lemma loadManifest_fails:
  assumes "fs (resolve p) = Readable content" "parseYaml content = Inr m"
    "\<not> valid (validateManifest nts fl m)"
  shows "loadManifest nts fl resolve fs parseYaml p =
           \<lparr>success = False, manifest = None,
            error = Some (''Manifest validation failed: ''
                          @ join '', '' (map e_message (errors (validateManifest nts fl m)))),
            validationResult = Some (validateManifest nts fl m)\<rparr>"
  using assms by (simp add: loadManifest_def Let_def)
lemma map_of_written:
  "map_of (map (\<lambda>kv. (fst kv, f (snd kv))) kvs) k = map_option f (map_of kvs k)"
  by (induction kvs) auto
lemma serialize_obj:
  "serialize nts (Some ks) (JObj kvs) =
     Some (''{''
           @ join '',''
               (List.map_filter
                  (\<lambda>k. case map_option (serialize nts (Some ks)) (map_of kvs k) of
                         Some (Some s) \<Rightarrow> Some (quote k @ '':'' @ s)
                       | _ \<Rightarrow> None) ks)
           @ ''}'')"
  by (simp add: map_of_written)
lemma same_value_serialize:
  "same_value v v' \<Longrightarrow> serialize nts (Some ks) v = serialize nts (Some ks) v'"
proof (induction rule: same_value.induct)
  case (same_arr xs ys)
  then have "map (\<lambda>v. case serialize nts (Some ks) v of None \<Rightarrow> ''null'' | Some s \<Rightarrow> s) xs
           = map (\<lambda>v. case serialize nts (Some ks) v of None \<Rightarrow> ''null'' | Some s \<Rightarrow> s) ys"
    by (induction xs ys rule: list_all2_induct) auto
  then show ?case by simp
next
  case (same_obj kvs kvs')
  have "map_option (serialize nts (Some ks)) (map_of kvs k)
      = map_option (serialize nts (Some ks)) (map_of kvs' k)" for k
  proof (cases "map_of kvs k")
    case None
    then have "k \<notin> set (map fst kvs')"
      using same_obj.hyps(3) by (metis map_of_eq_None_iff set_map)
    then have "map_of kvs' k = None"
      by (simp add: map_of_eq_None_iff)
    with None show ?thesis by simp
  next
    case (Some v)
    then have "k \<in> set (map fst kvs')"
      using same_obj.hyps(3) by (metis map_of_eq_None_iff option.distinct(1) set_map)
    then obtain v' where v': "map_of kvs' k = Some v'"
      by (metis map_of_eq_None_iff not_Some_eq set_map)
    with Some same_obj.IH show ?thesis by simp
  qed
  then show ?case unfolding serialize_obj by simp
qed simp_all
lemma same_obj_keys:
  assumes "same_value (JObj m1) (JObj m2)"
  shows "sort (map fst m1) = sort (map fst m2)"
proof -
  from assms have d: "distinct (map fst m1) \<and> distinct (map fst m2)
      \<and> set (map fst m1) = set (map fst m2)"
    by (rule same_objE) simp
  then show ?thesis
    by (intro sorted_distinct_set_unique) simp_all
qed
lemma hashManifest_content:
  "\<exists>content. JSON_stringify nts (JObj m) (Some (sort (map fst m))) = Some content
     \<and> hashManifest sha256 nts m = Inr (take 16 (sha256 content))"
proof -
  obtain content where c: "serialize nts (Some (js_set (sort (map fst m)))) (JObj m) = Some content"
    unfolding serialize_obj by blast
  then show ?thesis
    by (simp add: hashManifest_def JSON_stringify_def)
qed
lemma same_documents: "same_value (JObj document_a) (JObj document_b)"
  unfolding document_a_def document_b_def
  by (auto intro!: same_value.intros split: if_splits)

subsection \<open>Thresholds that do not increase\<close>

text \<open>
  C7. A manifest has the thresholds critical 0.6, low 0.5, nominal 0.7 and optimal 0.9
  and is valid otherwise (a version, a project name, an approval threshold between 0 and
  1, as the loader's defaults are). Then \<open>validateManifest\<close> returns exactly one error,
  with the code INVALID_THRESHOLDS, and the result is not valid; and \<open>loadManifest\<close> on a
  readable file that parses to this manifest returns success false, with no manifest.
  This holds however the additions of the weights are rounded.
\<close>

theorem invalid_thresholds_rejected:
  assumes "th_critical (thresholds m) = 0.6" "th_low (thresholds m) = 0.5"
      and "th_nominal (thresholds m) = 0.7" "th_optimal (thresholds m) = 0.9"
      and "manifest_version m \<noteq> []" "project_name (project m) \<noteq> []"
      and "0 \<le> dh_threshold (diamond_hands m)" "dh_threshold (diamond_hands m) \<le> 1"
      and "fs (resolve p) = Readable content" "parseYaml content = Inr m"
  shows "errors (validateManifest nts fl m) =
           [\<lparr>e_path = ''thresholds'', e_message = ''Critical threshold must be less than low'',
             e_code = ''INVALID_THRESHOLDS''\<rparr>]
       \<and> length (errors (validateManifest nts fl m)) = 1
       \<and> \<not> valid (validateManifest nts fl m)
       \<and> success (loadManifest nts fl resolve fs parseYaml p) = False
       \<and> manifest (loadManifest nts fl resolve fs parseYaml p) = None
       \<and> error (loadManifest nts fl resolve fs parseYaml p) =
           Some ''Manifest validation failed: Critical threshold must be less than low''"
proof -
  have e: "errors (validateManifest nts fl m) =
           [\<lparr>e_path = ''thresholds'', e_message = ''Critical threshold must be less than low'',
             e_code = ''INVALID_THRESHOLDS''\<rparr>]"
    using assms(1-8) by (rule validate_invalid_thresholds_only)
  have v: "\<not> valid (validateManifest nts fl m)"
    using assms(1-4) by (rule validate_invalid_thresholds)
  have l: "loadManifest nts fl resolve fs parseYaml p =
           \<lparr>success = False, manifest = None,
            error = Some (''Manifest validation failed: ''
                          @ join '', '' (map e_message (errors (validateManifest nts fl m)))),
            validationResult = Some (validateManifest nts fl m)\<rparr>"
    using assms(9,10) v by (rule loadManifest_fails)
  show ?thesis
    unfolding l e using v by simp
qed

theorem invalid_thresholds_rejected_witness:
  "errors (validateManifest (\<lambda>x. []) (\<lambda>x. x) invalid_thresholds_manifest) =
           [\<lparr>e_path = ''thresholds'', e_message = ''Critical threshold must be less than low'',
             e_code = ''INVALID_THRESHOLDS''\<rparr>]
   \<and> success (loadManifest (\<lambda>x. []) (\<lambda>x. x) (\<lambda>p. p)
         (\<lambda>p. if p = ''manifest.yaml'' then Readable invalid_thresholds_document else Missing)
         (\<lambda>c. Inr invalid_thresholds_manifest) ''manifest.yaml'') = False"
  using invalid_thresholds_rejected [of invalid_thresholds_manifest
      "\<lambda>p. if p = ''manifest.yaml'' then Readable invalid_thresholds_document else Missing"
      "\<lambda>p. p" "''manifest.yaml''" invalid_thresholds_document "\<lambda>c. Inr invalid_thresholds_manifest"
      "\<lambda>x. []" "\<lambda>x. x"]
  by (simp add: invalid_thresholds_manifest_def default_manifest_def)

subsection \<open>The order of keys\<close>

text \<open>
  C6. For every manifest object, \<open>hashManifest\<close> returns the first 16 characters of the
  SHA-256 digest of one text: the serialization of the object under the property list of
  the object's own keys, and this list is sorted. For two manifest objects that are the
  same up to the order of their keys, at every depth, the sorted keys are equal, the
  serializations are equal, and \<open>hashManifest\<close> returns the same hash.
\<close>

theorem hashManifest_key_order:
  "(\<exists>content. JSON_stringify nts (JObj m) (Some (sort (map fst m))) = Some content
       \<and> hashManifest sha256 nts m = Inr (take 16 (sha256 content)))
   \<and> sorted (sort (map fst m)) \<and> set (sort (map fst m)) = fst ` set m
   \<and> (same_value (JObj m1) (JObj m2) \<longrightarrow>
         hashManifest sha256 nts m1 = hashManifest sha256 nts m2
       \<and> sort (map fst m1) = sort (map fst m2)
       \<and> JSON_stringify nts (JObj m1) (Some (sort (map fst m1)))
         = JSON_stringify nts (JObj m2) (Some (sort (map fst m2))))"
proof -
  have "same_value (JObj m1) (JObj m2) \<Longrightarrow>
         hashManifest sha256 nts m1 = hashManifest sha256 nts m2
       \<and> sort (map fst m1) = sort (map fst m2)
       \<and> JSON_stringify nts (JObj m1) (Some (sort (map fst m1)))
         = JSON_stringify nts (JObj m2) (Some (sort (map fst m2)))"
    using same_value_serialize [of "JObj m1" "JObj m2"] same_obj_keys [of m1 m2]
    by (simp add: hashManifest_def JSON_stringify_def)
  then have 1: "same_value (JObj m1) (JObj m2) \<longrightarrow>
         hashManifest sha256 nts m1 = hashManifest sha256 nts m2
       \<and> sort (map fst m1) = sort (map fst m2)
       \<and> JSON_stringify nts (JObj m1) (Some (sort (map fst m1)))
         = JSON_stringify nts (JObj m2) (Some (sort (map fst m2)))" ..
  have 2: "sorted (sort (map fst m)) \<and> set (sort (map fst m)) = fst ` set m"
    by simp
  from hashManifest_content [of nts m sha256] 1 2 show ?thesis
    by (intro conjI) (rule TrueI | assumption | erule conjunct1 | erule conjunct2)+
qed

theorem hashManifest_key_order_witness:
  "document_a \<noteq> document_b
   \<and> same_value (JObj document_a) (JObj document_b)
   \<and> (\<forall>sha256 nts. hashManifest sha256 nts document_a = hashManifest sha256 nts document_b)
   \<and> (\<forall>sha256 nts. \<exists>content.
          JSON_stringify nts (JObj document_a) (Some (sort (map fst document_a))) = Some content
        \<and> hashManifest sha256 nts document_a = Inr (take 16 (sha256 content)))"
proof -
  have "document_a \<noteq> document_b"
    by (simp add: document_a_def document_b_def)
  moreover have "hashManifest sha256 nts document_a = hashManifest sha256 nts document_b"
    for sha256 nts
    using hashManifest_key_order [of nts document_a sha256 document_a document_b] same_documents
    by blast
  moreover have "\<exists>content.
          JSON_stringify nts (JObj document_a) (Some (sort (map fst document_a))) = Some content
        \<and> hashManifest sha256 nts document_a = Inr (take 16 (sha256 content))" for sha256 nts
    using hashManifest_key_order [of nts document_a sha256 document_a document_b]
    by blast
  ultimately show ?thesis using same_documents by blast
qed

subsection \<open>What the hash covers\<close>




section \<open>Properties of Generator B\<close>

subsection \<open>Auxiliary facts\<close>

lemma generateOutputHash_depends:
  assumes "map (\<lambda>f. (file_path f, file_hash f)) (files a) = map (\<lambda>f. (file_path f, file_hash f)) (files b)"
      and "manifestHash (metadata a) = manifestHash (metadata b)"
  shows "generateOutputHash sha nts a = generateOutputHash sha nts b"
proof -
  have "map (\<lambda>ph. JObj [(''path'', JStr (fst ph)), (''hash'', JStr (snd ph))])
          (map (\<lambda>f. (file_path f, file_hash f)) (files a))
      = map (\<lambda>ph. JObj [(''path'', JStr (fst ph)), (''hash'', JStr (snd ph))])
          (map (\<lambda>f. (file_path f, file_hash f)) (files b))"
    by (simp only: assms(1))
  then have eq: "map (\<lambda>f. JObj [(''path'', JStr (file_path f)), (''hash'', JStr (file_hash f))]) (files a)
      = map (\<lambda>f. JObj [(''path'', JStr (file_path f)), (''hash'', JStr (file_hash f))]) (files b)"
    by (simp only: map_map comp_def fst_conv snd_conv)
  show ?thesis
    by (simp only: generateOutputHash_def eq assms(2))
qed
lemma generateOutputHash_Inr:
  "\<exists>h. generateOutputHash sha nts out = Inr h"
  by (simp only: generateOutputHash_def JSON_stringify_def option.map serialize.simps(7) Let_def option.case) blast
lemma generate_unfold:
  "generate p g clk cfg =
     (case platform_file p (platform_resolve p (manifestPath cfg)) of
        Missing \<Rightarrow> Inl ReadError
      | Unreadable msg \<Rightarrow> Inl ReadError
      | Readable content \<Rightarrow>
          (case JSON_stringify (platform_numberToString p) (extractManifest g content) None of
             None \<Rightarrow> Inl TypeError
           | Some js \<Rightarrow>
               (case generateOutputHash (platform_sha256 p) (platform_numberToString p)
                       (unhashed_output p g clk (extractManifest g content) js) of
                  Inl e \<Rightarrow> Inl e
                | Inr h \<Rightarrow>
                    Inr ((unhashed_output p g clk (extractManifest g content) js)\<lparr>bundle_hash := h\<rparr>))))"
  unfolding generate_def Let_def unhashed_output_def generated_files_def
  by (simp cong: file_state.case_cong option.case_cong sum.case_cong)
lemma generate_Inr:
  assumes "generate p g clk cfg = Inr out"
      and "platform_file p (platform_resolve p (manifestPath cfg)) = Readable content"
  shows "\<exists>js. JSON_stringify (platform_numberToString p) (extractManifest g content) None = Some js
           \<and> generateOutputHash (platform_sha256 p) (platform_numberToString p)
                 (unhashed_output p g clk (extractManifest g content) js) = Inr (bundle_hash out)
           \<and> out = (unhashed_output p g clk (extractManifest g content) js)\<lparr>bundle_hash := bundle_hash out\<rparr>"
proof (cases "JSON_stringify (platform_numberToString p) (extractManifest g content) None")
  case None
  with assms show ?thesis by (simp add: generate_unfold)
next
  case (Some js)
  show ?thesis
  proof (cases "generateOutputHash (platform_sha256 p) (platform_numberToString p)
                 (unhashed_output p g clk (extractManifest g content) js)")
    case (Inl e)
    with assms Some show ?thesis by (simp add: generate_unfold)
  next
    case (Inr h)
    with assms Some have "out = (unhashed_output p g clk (extractManifest g content) js)\<lparr>bundle_hash := h\<rparr>"
      by (simp add: generate_unfold)
    then have "bundle_hash out = h" by simp
    with Some Inr \<open>out = _\<close> show ?thesis by simp
  qed
qed
lemma generate_returns:
  assumes "platform_file p (platform_resolve p (manifestPath cfg)) = Readable content"
      and "JSON_stringify (platform_numberToString p) (extractManifest g content) None = Some js"
  shows "\<exists>out. generate p g clk cfg = Inr out"
proof -
  obtain h where "generateOutputHash (platform_sha256 p) (platform_numberToString p)
                 (unhashed_output p g clk (extractManifest g content) js) = Inr h"
    using generateOutputHash_Inr by blast
  with assms show ?thesis by (simp add: generate_unfold)
qed

subsection \<open>The aggregate hash does not see the clock\<close>

text \<open>
  C1. For every content of the manifest file (from which the extraction yields the
  manifest object), two runs of \<open>generate\<close> that read different clocks both return a
  bundle; the bundles carry the timestamp and the duration of their own run, and they have
  the same files, the same manifest hash and the same aggregate hash. The aggregate hash is
  what \<open>generateOutputHash\<close> returns on the bundle, and \<open>generateOutputHash\<close> returns the
  same hash on any two bundles with the same list of (path, hash) pairs and the same
  manifest hash.
\<close>

theorem generate_hash_deterministic:
  assumes "platform_file p (platform_resolve p (manifestPath cfg)) = Readable content"
      and "extractManifest g content = JObj kvs"
  shows "\<exists>out1 out2.
           generate p g clk1 cfg = Inr out1 \<and> generate p g clk2 cfg = Inr out2
         \<and> bundle_hash out1 = bundle_hash out2
         \<and> files out1 = files out2
         \<and> manifestHash (metadata out1) = manifestHash (metadata out2)
         \<and> timestamp (metadata out1) = isoTime clk1 \<and> timestamp (metadata out2) = isoTime clk2
         \<and> durationMs (metadata out1) = endTime clk1 - startTime clk1
         \<and> durationMs (metadata out2) = endTime clk2 - startTime clk2
         \<and> generateOutputHash (platform_sha256 p) (platform_numberToString p) out1
               = Inr (bundle_hash out1)
         \<and> (\<forall>a b. map (\<lambda>f. (file_path f, file_hash f)) (files a)
                     = map (\<lambda>f. (file_path f, file_hash f)) (files b)
                   \<and> manifestHash (metadata a) = manifestHash (metadata b)
                   \<longrightarrow> generateOutputHash (platform_sha256 p) (platform_numberToString p) a
                     = generateOutputHash (platform_sha256 p) (platform_numberToString p) b)"
proof -
  let ?m = "extractManifest g content"
  let ?H = "generateOutputHash (platform_sha256 p) (platform_numberToString p)"
  have "\<exists>js. JSON_stringify (platform_numberToString p) (JObj kvs) None = Some js"
    by (simp only: JSON_stringify_def option.map serialize.simps(7) Let_def) blast
  then obtain js where js: "JSON_stringify (platform_numberToString p) ?m None = Some js"
    unfolding assms(2) by blast
  obtain out1 where o1: "generate p g clk1 cfg = Inr out1"
    using generate_returns [OF assms(1) js] by blast
  obtain out2 where o2: "generate p g clk2 cfg = Inr out2"
    using generate_returns [OF assms(1) js] by blast
  obtain t1 where t1: "JSON_stringify (platform_numberToString p) ?m None = Some t1"
      "?H (unhashed_output p g clk1 ?m t1) = Inr (bundle_hash out1)"
      "out1 = (unhashed_output p g clk1 ?m t1)\<lparr>bundle_hash := bundle_hash out1\<rparr>"
    using generate_Inr [OF o1 assms(1)] by blast
  obtain t2 where t2: "JSON_stringify (platform_numberToString p) ?m None = Some t2"
      "?H (unhashed_output p g clk2 ?m t2) = Inr (bundle_hash out2)"
      "out2 = (unhashed_output p g clk2 ?m t2)\<lparr>bundle_hash := bundle_hash out2\<rparr>"
    using generate_Inr [OF o2 assms(1)] by blast
  from t1(1) t2(1) have tt: "t1 = t2" by simp
  have f1: "files out1 = generated_files p g ?m"
    by (subst t1(3)) (simp add: unhashed_output_def)
  have f2: "files out2 = generated_files p g ?m"
    by (subst t2(3)) (simp add: unhashed_output_def)
  have m1: "manifestHash (metadata out1) = generateHash (platform_sha256 p) t1"
    by (subst t1(3)) (simp add: unhashed_output_def)
  have m2: "manifestHash (metadata out2) = generateHash (platform_sha256 p) t1"
    by (subst t2(3)) (simp add: unhashed_output_def tt)
  have c1: "timestamp (metadata out1) = isoTime clk1
          \<and> durationMs (metadata out1) = endTime clk1 - startTime clk1"
    by (subst t1(3), subst (2) t1(3)) (simp add: unhashed_output_def)
  have c2: "timestamp (metadata out2) = isoTime clk2
          \<and> durationMs (metadata out2) = endTime clk2 - startTime clk2"
    by (subst t2(3), subst (2) t2(3)) (simp add: unhashed_output_def)
  have "?H (unhashed_output p g clk1 ?m t1) = ?H (unhashed_output p g clk2 ?m t2)"
    by (rule generateOutputHash_depends) (simp_all add: unhashed_output_def tt)
  with t1(2) t2(2) have eq: "bundle_hash out1 = bundle_hash out2" by simp
  have "?H out1 = ?H (unhashed_output p g clk1 ?m t1)"
    by (rule generateOutputHash_depends) (simp_all add: f1 m1, simp_all add: unhashed_output_def)
  with t1(2) have own: "?H out1 = Inr (bundle_hash out1)" by simp
  have dep: "\<forall>a b. map (\<lambda>f. (file_path f, file_hash f)) (files a)
                   = map (\<lambda>f. (file_path f, file_hash f)) (files b)
                 \<and> manifestHash (metadata a) = manifestHash (metadata b)
                 \<longrightarrow> ?H a = ?H b"
    using generateOutputHash_depends by blast
  have "generate p g clk1 cfg = Inr out1 \<and> generate p g clk2 cfg = Inr out2
         \<and> bundle_hash out1 = bundle_hash out2
         \<and> files out1 = files out2
         \<and> manifestHash (metadata out1) = manifestHash (metadata out2)
         \<and> timestamp (metadata out1) = isoTime clk1 \<and> timestamp (metadata out2) = isoTime clk2
         \<and> durationMs (metadata out1) = endTime clk1 - startTime clk1
         \<and> durationMs (metadata out2) = endTime clk2 - startTime clk2
         \<and> ?H out1 = Inr (bundle_hash out1)
         \<and> (\<forall>a b. map (\<lambda>f. (file_path f, file_hash f)) (files a)
                     = map (\<lambda>f. (file_path f, file_hash f)) (files b)
                   \<and> manifestHash (metadata a) = manifestHash (metadata b)
                   \<longrightarrow> ?H a = ?H b)"
  proof (intro conjI)
    show "generate p g clk1 cfg = Inr out1" by (rule o1)
    show "generate p g clk2 cfg = Inr out2" by (rule o2)
    show "bundle_hash out1 = bundle_hash out2" by (rule eq)
    show "files out1 = files out2" by (simp only: f1 f2)
    show "manifestHash (metadata out1) = manifestHash (metadata out2)" by (simp only: m1 m2)
    show "timestamp (metadata out1) = isoTime clk1" using c1 by (rule conjunct1)
    show "timestamp (metadata out2) = isoTime clk2" using c2 by (rule conjunct1)
    show "durationMs (metadata out1) = endTime clk1 - startTime clk1" using c1 by (rule conjunct2)
    show "durationMs (metadata out2) = endTime clk2 - startTime clk2" using c2 by (rule conjunct2)
    show "?H out1 = Inr (bundle_hash out1)" by (rule own)
    show "\<forall>a b. map (\<lambda>f. (file_path f, file_hash f)) (files a)
                   = map (\<lambda>f. (file_path f, file_hash f)) (files b)
                 \<and> manifestHash (metadata a) = manifestHash (metadata b)
                 \<longrightarrow> ?H a = ?H b" by (rule dep)
  qed
  then show ?thesis by blast
qed

theorem generate_hash_deterministic_witness:
  "platform_file sample_platform (platform_resolve sample_platform (manifestPath sample_config))
     = Readable (''version: '' @ [DQ] @ ''2.0.0'' @ [DQ] @ [LF])
   \<and> (\<exists>out1 out2.
         generate sample_platform sample_parts
           \<lparr>startTime = 1704067200000, isoTime = ''2024-01-01T00:00:00.012Z'', endTime = 1704067200012\<rparr>
           sample_config = Inr out1
       \<and> generate sample_platform sample_parts
           \<lparr>startTime = 1704067260000, isoTime = ''2024-01-01T00:01:00.031Z'', endTime = 1704067260031\<rparr>
           sample_config = Inr out2
       \<and> timestamp (metadata out1) \<noteq> timestamp (metadata out2)
       \<and> durationMs (metadata out1) \<noteq> durationMs (metadata out2)
       \<and> bundle_hash out1 = bundle_hash out2)"
proof -
  have r: "platform_file sample_platform (platform_resolve sample_platform (manifestPath sample_config))
     = Readable (''version: '' @ [DQ] @ ''2.0.0'' @ [DQ] @ [LF])"
    by (simp add: sample_platform_def sample_config_def)
  have m: "extractManifest sample_parts (''version: '' @ [DQ] @ ''2.0.0'' @ [DQ] @ [LF])
             = JObj [(''version'', JStr ''2.0.0'')]"
    by (simp add: sample_parts_def)
  from generate_hash_deterministic [OF r m,
      of "\<lparr>startTime = 1704067200000, isoTime = ''2024-01-01T00:00:00.012Z'', endTime = 1704067200012\<rparr>"
         "\<lparr>startTime = 1704067260000, isoTime = ''2024-01-01T00:01:00.031Z'', endTime = 1704067260031\<rparr>"]
  obtain out1 out2 where o:
    "generate sample_platform sample_parts
           \<lparr>startTime = 1704067200000, isoTime = ''2024-01-01T00:00:00.012Z'', endTime = 1704067200012\<rparr>
           sample_config = Inr out1"
    "generate sample_platform sample_parts
           \<lparr>startTime = 1704067260000, isoTime = ''2024-01-01T00:01:00.031Z'', endTime = 1704067260031\<rparr>
           sample_config = Inr out2"
    "bundle_hash out1 = bundle_hash out2"
    "timestamp (metadata out1) = ''2024-01-01T00:00:00.012Z''"
    "timestamp (metadata out2) = ''2024-01-01T00:01:00.031Z''"
    "durationMs (metadata out1) = 1704067200012 - 1704067200000"
    "durationMs (metadata out2) = 1704067260031 - 1704067260000"
    by (auto simp del: clock.simps simp add: clock.select_convs)
  have "timestamp (metadata out1) \<noteq> timestamp (metadata out2)"
    unfolding o(4,5) by simp
  moreover have "durationMs (metadata out1) \<noteq> durationMs (metadata out2)"
    unfolding o(6,7) by simp
  ultimately show ?thesis using r o(1,2,3) by blast
qed

end
